theory Spec2Isabelle
  imports Main "HOL-Library.AList"
begin

section \<open>The deleteApi action of the route management package\<close>

text \<open>
  A shallow embedding of \<^verbatim>\<open>core/routemgmt/deleteApi/deleteApi.js\<close>: the functions
  \<^verbatim>\<open>validateArgs\<close> and \<^verbatim>\<open>main\<close>. The helpers of \<^verbatim>\<open>utils.js\<close> which
  \<^verbatim>\<open>main\<close> calls are parameters of the model (record \<open>utils\<close>); every call to one of them
  is recorded, in order, in a list of calls returned beside the outcome of the promise.
  \<^verbatim>\<open>console.log\<close>, \<^verbatim>\<open>console.error\<close> and \<^verbatim>\<open>utils.confidentialPrint\<close> only print
  and are left out. A helper is a function of its arguments: \<^verbatim>\<open>main\<close> calls each of
  them at most once. A helper that returns a promise settles it, with a reason that is a
  string when it rejects; the fields of the message are strings, as the header of the
  source describes them.
\<close>

subsection \<open>JavaScript values\<close>

text \<open>
  A field of the message is a string or \<^verbatim>\<open>undefined\<close> (\<open>None\<close>). A string is a list of
  code units, each below 256 (the characters of Latin-1, ASCII among them). \<^verbatim>\<open>!x\<close> holds
  of \<^verbatim>\<open>undefined\<close> and of the empty string.
\<close>

type_synonym jsval = "string option"

fun truthy :: "jsval \<Rightarrow> bool" where
  "truthy None = False"
| "truthy (Some s) = (s \<noteq> [])"

text \<open>\<^verbatim>\<open>a || b\<close>\<close>

definition jsOr :: "jsval \<Rightarrow> jsval \<Rightarrow> jsval" where
  "jsOr a b = (if truthy a then a else b)"

text \<open>The string which \<^verbatim>\<open>'...' + x\<close> appends for \<^verbatim>\<open>x\<close>.\<close>

fun jsStr :: "jsval \<Rightarrow> string" where
  "jsStr None = ''undefined''"
| "jsStr (Some s) = s"

text \<open>
  \<^verbatim>\<open>String.prototype.toLowerCase\<close>, one code unit at a time. Below 256 the code units
  with a lower-case form are the letters \<^verbatim>\<open>A\<close> to \<^verbatim>\<open>Z\<close> (65 to 90) and the capital
  letters of Latin-1, U+00C0 to U+00DE without the multiplication sign U+00D7 (192 to 214
  and 216 to 222); the lower-case form is 32 above. Every other code unit is kept.
\<close>

definition toLowerChar :: "char \<Rightarrow> char" where
  "toLowerChar c =
     (let n = (of_char c :: nat)
      in if (65 \<le> n \<and> n \<le> 90) \<or> (192 \<le> n \<and> n \<le> 214) \<or> (216 \<le> n \<and> n \<le> 222)
         then char_of (n + 32) else c)"

definition toLowerCase :: "string \<Rightarrow> string" where
  "toLowerCase s = map toLowerChar s"

text \<open>\<^verbatim>\<open>Buffer.from(s, 'ascii').toString('base64')\<close>\<close>

definition base64Alphabet :: string where
  "base64Alphabet = ''ABCDEFGHIJKLMNOPQRSTUVWXYZabcdefghijklmnopqrstuvwxyz0123456789+/''"

definition base64Digit :: "nat \<Rightarrow> char" where
  "base64Digit n = base64Alphabet ! (n mod 64)"

fun base64Bytes :: "nat list \<Rightarrow> string" where
  "base64Bytes [] = []"
| "base64Bytes [a] =
     [base64Digit (a div 4), base64Digit ((a mod 4) * 16), CHR ''='', CHR ''='']"
| "base64Bytes [a, b] =
     [base64Digit (a div 4), base64Digit ((a mod 4) * 16 + b div 16),
      base64Digit ((b mod 16) * 4), CHR ''='']"
| "base64Bytes (a # b # c # rest) =
     [base64Digit (a div 4), base64Digit ((a mod 4) * 16 + b div 16),
      base64Digit ((b mod 16) * 4 + c div 64), base64Digit (c mod 64)] @ base64Bytes rest"

definition base64 :: "string \<Rightarrow> string" where
  "base64 s = base64Bytes (map of_char s)"

subsection \<open>The message and the gateway's data\<close>

record message =
  gwUrl :: jsval
  gwUser :: jsval
  gwPwd :: jsval
  namespace :: jsval
  ow_meta_namespace :: jsval
  tenantInstance :: jsval
  basepath :: jsval
  relpath :: jsval
  operation :: jsval

record gwInfo =
  gwInfo_gwUrl :: jsval
  gwAuth :: jsval

record tenant =
  tenant_id :: string

text \<open>
  An API of the gateway: the fields which \<^verbatim>\<open>main\<close> reads, and the gateway's own
  description of the endpoints, which only \<^verbatim>\<open>utils.generateSwaggerApiFromGwApi\<close> reads.
\<close>

record 'r gwApi =
  api_id :: string
  tenantId :: string
  basePath :: string
  resources :: 'r

record endpoint =
  gatewayMethod :: jsval
  gatewayPath :: jsval

text \<open>
  A promise, once settled: rejected with a reason (\<open>Inl\<close>) or resolved with a value
  (\<open>Inr\<close>).
\<close>

type_synonym 'a settled = "string + 'a"

text \<open>
  The functions of \<^verbatim>\<open>utils.js\<close> that \<^verbatim>\<open>main\<close> calls. \<open>'r\<close> is the gateway's description
  of the endpoints of an API, \<open>'d\<close> the swagger document.
  \<^verbatim>\<open>removeEndpointFromSwaggerApi\<close> returns an error message (\<open>Inl\<close>: a value whose
  \<^verbatim>\<open>typeof\<close> is \<^verbatim>\<open>'string'\<close>) or the document.
\<close>

record ('r, 'd) utils =
  getTenants :: "gwInfo \<Rightarrow> jsval \<Rightarrow> jsval \<Rightarrow> tenant list settled"
  getApis :: "gwInfo \<Rightarrow> string \<Rightarrow> jsval \<Rightarrow> 'r gwApi list settled"
  deleteApiFromGateway :: "gwInfo \<Rightarrow> string \<Rightarrow> unit settled"
  generateSwaggerApiFromGwApi :: "'r gwApi \<Rightarrow> 'd"
  removeEndpointFromSwaggerApi :: "'d \<Rightarrow> endpoint \<Rightarrow> string + 'd"
  addApiToGateway :: "gwInfo \<Rightarrow> string \<Rightarrow> 'd \<Rightarrow> string \<Rightarrow> unit settled"

datatype ('r, 'd) call =
  GetTenants gwInfo jsval jsval
| GetApis gwInfo string jsval
| DeleteApiFromGateway gwInfo string
| GenerateSwaggerApiFromGwApi "'r gwApi"
| RemoveEndpointFromSwaggerApi 'd endpoint
| AddApiToGateway gwInfo string 'd string

text \<open>A promise of the chain: how it settles, and the calls made until then.\<close>

type_synonym ('a, 'c) promise = "'a settled \<times> 'c list"

definition resolve :: "'a \<Rightarrow> ('a, 'c) promise" where
  "resolve v = (Inr v, [])"

definition reject :: "string \<Rightarrow> ('a, 'c) promise" where
  "reject reason = (Inl reason, [])"

text \<open>A call to the gateway: the call is recorded, the promise settles as the gateway says.\<close>

definition called :: "'c \<Rightarrow> 'a settled \<Rightarrow> ('a, 'c) promise" where
  "called c r = (r, [c])"

text \<open>\<^verbatim>\<open>p.then(f)\<close>: \<open>f\<close> runs only when \<open>p\<close> resolves.\<close>

definition thenP :: "('a, 'c) promise \<Rightarrow> ('a \<Rightarrow> ('b, 'c) promise) \<Rightarrow> ('b, 'c) promise" where
  "thenP p f =
     (case p of
        (Inl reason, cs) \<Rightarrow> (Inl reason, cs)
      | (Inr v, cs) \<Rightarrow> (case f v of (r, cs') \<Rightarrow> (r, cs @ cs')))"

text \<open>\<^verbatim>\<open>p.catch(h)\<close>: \<open>h\<close> runs only when \<open>p\<close> rejects.\<close>

definition catchP :: "('a, 'c) promise \<Rightarrow> (string \<Rightarrow> ('a, 'c) promise) \<Rightarrow> ('a, 'c) promise" where
  "catchP p h =
     (case p of
        (Inl reason, cs) \<Rightarrow> (case h reason of (r, cs') \<Rightarrow> (r, cs @ cs'))
      | (Inr v, cs) \<Rightarrow> (Inr v, cs))"

subsection \<open>validateArgs\<close>

text \<open>
  The function returns the error message (empty when the arguments are good) and lower-cases
  \<^verbatim>\<open>message.operation\<close> in place: the model returns the message beside the string.
\<close>

fun validateArgs :: "message option \<Rightarrow> string \<times> message option" where
  "validateArgs None = (''Internal error.  A message parameter was not supplied.'', None)"
| "validateArgs (Some message) =
     (if \<not> truthy (gwUrl message) then (''gwUrl is required.'', Some message)
      else if \<not> truthy (ow_meta_namespace message) then
        (''__ow_meta_namespace is required.'', Some message)
      else if \<not> truthy (basepath message) then (''basepath is required.'', Some message)
      else if \<not> truthy (relpath message) \<and> truthy (operation message) then
        (''When specifying an operation, the relpath is required.'', Some message)
      else if truthy (operation message) then
        ('''', Some (message\<lparr>operation := map_option toLowerCase (operation message)\<rparr>))
      else ('''', Some message))"

subsection \<open>main\<close>

text \<open>How \<^verbatim>\<open>main\<close> ends: the promise it returns resolves or rejects, or \<^verbatim>\<open>main\<close> throws.\<close>

datatype outcome = Resolved | Rejected string | Threw string

text \<open>Lines 45 to 50.\<close>

definition mkGwInfo :: "message \<Rightarrow> gwInfo" where
  "mkGwInfo message =
     (if truthy (gwUser message) \<and> truthy (gwPwd message) then
        \<lparr>gwInfo_gwUrl = gwUrl message,
         gwAuth = Some (base64 (jsStr (gwUser message) @ '':'' @ jsStr (gwPwd message)))\<rparr>
      else \<lparr>gwInfo_gwUrl = gwUrl message, gwAuth = None\<rparr>)"

text \<open>Line 55.\<close>

definition tenantInstanceOf :: "message \<Rightarrow> jsval" where
  "tenantInstanceOf message = jsOr (tenantInstance message) (Some ''openwhisk'')"

text \<open>The callbacks of the chain, in the order of the source (lines 81, 94, 98, 109, 127, 131).\<close>

definition onTenants :: "message \<Rightarrow> jsval \<Rightarrow> tenant list \<Rightarrow> (string, 'c) promise" where
  "onTenants message tenantInst tenants =
     (if length tenants = 0 then
        reject (''No Tenant found for namespace '' @ jsStr (namespace message))
      else if length tenants > 1 then
        reject (''Internal error. Multiple API Gateway tenants found for namespace '' @
                jsStr (namespace message) @ '' and tenant instance '' @ jsStr tenantInst)
      else resolve (tenant_id (tenants ! 0)))"

definition onTenantId ::
  "('r, 'd) utils \<Rightarrow> gwInfo \<Rightarrow> message \<Rightarrow> string \<Rightarrow> ('r gwApi list, ('r, 'd) call) promise" where
  "onTenantId u gi message tid =
     called (GetApis gi tid (basepath message)) (getApis u gi tid (basepath message))"

text \<open>
  With more than one API the source builds a rejected promise, with the reason
  \<^verbatim>\<open>'Internal error. Multiple APIs found for namespace ...'\<close>, and does not return it (line
  105): the promise is left unhandled, outside the chain, and the callback goes on to line
  107 and resolves with the first API.
\<close>

definition onApis :: "message \<Rightarrow> 'r gwApi list \<Rightarrow> ('r gwApi, 'c) promise" where
  "onApis message apis =
     (if length apis = 0 then
        reject (''API '' @ jsStr (basepath message) @ '' does not exist.'')
      else if length apis > 1 then
        (let notReturned =
               (reject (''Internal error. Multiple APIs found for namespace '' @
                        jsStr (namespace message) @ '' with basepath '' @
                        jsStr (basepath message)) :: ('r gwApi, 'c) promise)
         in resolve (apis ! 0))
      else resolve (apis ! 0))"

definition onGwApi ::
  "('r, 'd) utils \<Rightarrow> gwInfo \<Rightarrow> message \<Rightarrow> bool \<Rightarrow> 'r gwApi \<Rightarrow> (unit, ('r, 'd) call) promise" where
  "onGwApi u gi message deleteEntireApi api =
     (if deleteEntireApi then
        called (DeleteApiFromGateway gi (api_id api)) (deleteApiFromGateway u gi (api_id api))
      else
        (let swaggerApi = generateSwaggerApiFromGwApi u api;
             ep = \<lparr>gatewayMethod = operation message, gatewayPath = relpath message\<rparr>;
             edit = [GenerateSwaggerApiFromGwApi api, RemoveEndpointFromSwaggerApi swaggerApi ep]
         in case removeEndpointFromSwaggerApi u swaggerApi ep of
              Inl errMsg \<Rightarrow> (Inl errMsg, edit)
            | Inr swagger \<Rightarrow>
                (addApiToGateway u gi (tenantId api) swagger (api_id api),
                 edit @ [AddApiToGateway gi (tenantId api) swagger (api_id api)])))"

definition onSuccess :: "unit \<Rightarrow> (unit, 'c) promise" where
  "onSuccess x = resolve ()"

definition onFailure :: "string \<Rightarrow> (unit, 'c) promise" where
  "onFailure reason = reject (''API deletion failure: '' @ reason)"

text \<open>Lines 45 to 134: \<^verbatim>\<open>main\<close> once the arguments are validated.\<close>

definition deleteApi :: "('r, 'd) utils \<Rightarrow> message \<Rightarrow> (unit, ('r, 'd) call) promise" where
  "deleteApi u message0 =
     (let gi = mkGwInfo message0;
          message = message0\<lparr>namespace := jsOr (ow_meta_namespace message0) (namespace message0)\<rparr>;
          tenantInst = tenantInstanceOf message;
          deleteEntireApi = (\<not> truthy (relpath message))
      in catchP
           (thenP
             (thenP
               (thenP
                 (thenP
                   (thenP
                     (called (GetTenants gi (namespace message) tenantInst)
                        (getTenants u gi (namespace message) tenantInst))
                     (onTenants message tenantInst))
                   (onTenantId u gi message))
                 (onApis message))
               (onGwApi u gi message deleteEntireApi))
             onSuccess)
           onFailure)"

definition outcomeOf :: "unit settled \<Rightarrow> outcome" where
  "outcomeOf r = (case r of Inl reason \<Rightarrow> Rejected reason | Inr x \<Rightarrow> Resolved)"

text \<open>
  \<^verbatim>\<open>main\<close>. Were the message missing after a successful validation, reading
  \<^verbatim>\<open>message.gwUrl\<close> would throw; \<open>validateArgs\<close> excludes it.
\<close>

definition main :: "('r, 'd) utils \<Rightarrow> message option \<Rightarrow> outcome \<times> ('r, 'd) call list" where
  "main u message =
     (case validateArgs message of
        (badArgMsg, message') \<Rightarrow>
          if badArgMsg \<noteq> [] then (Rejected badArgMsg, [])
          else (case message' of
                  None \<Rightarrow> (Threw ''TypeError'', [])
                | Some m \<Rightarrow> (case deleteApi u m of (r, cs) \<Rightarrow> (outcomeOf r, cs))))"

text \<open>
  The message as \<open>validateArgs\<close> leaves it when it accepts it: the operation, when
  there is one, in lower case.
\<close>

definition normalized :: "message \<Rightarrow> message" where
  "normalized m =
     (if truthy (operation m) then m\<lparr>operation := map_option toLowerCase (operation m)\<rparr>
      else m)"

text \<open>The calls that edit the document or send it to the gateway.\<close>

fun isEditCall :: "('r, 'd) call \<Rightarrow> bool" where
  "isEditCall (GenerateSwaggerApiFromGwApi api) = True"
| "isEditCall (RemoveEndpointFromSwaggerApi doc ep) = True"
| "isEditCall (AddApiToGateway gi tid doc i) = True"
| "isEditCall c = False"

subsection \<open>The lower-cased form of a string\<close>

text \<open>
  The spec's words are that the operation is matched whatever its case, \<^verbatim>\<open>GET\<close> as
  \<^verbatim>\<open>get\<close>. The lower-cased form of a string is given here letter by letter, by the
  table of the letters that have two cases (among the code units below 256), and not by
  the arithmetic of \<open>toLowerChar\<close>: a capital letter is replaced by the letter at its
  place in the second row, every other code unit is kept.
\<close>

definition upperCaseLetters :: string where
  "upperCaseLetters =
     ''ABCDEFGHIJKLMNOPQRSTUVWXYZ'' @
     [CHR 0xC0, CHR 0xC1, CHR 0xC2, CHR 0xC3, CHR 0xC4, CHR 0xC5, CHR 0xC6, CHR 0xC7, CHR 0xC8,
      CHR 0xC9, CHR 0xCA, CHR 0xCB, CHR 0xCC, CHR 0xCD, CHR 0xCE, CHR 0xCF, CHR 0xD0, CHR 0xD1,
      CHR 0xD2, CHR 0xD3, CHR 0xD4, CHR 0xD5, CHR 0xD6, CHR 0xD8, CHR 0xD9, CHR 0xDA, CHR 0xDB,
      CHR 0xDC, CHR 0xDD, CHR 0xDE]"

definition lowerCaseLetters :: string where
  "lowerCaseLetters =
     ''abcdefghijklmnopqrstuvwxyz'' @
     [CHR 0xE0, CHR 0xE1, CHR 0xE2, CHR 0xE3, CHR 0xE4, CHR 0xE5, CHR 0xE6, CHR 0xE7, CHR 0xE8,
      CHR 0xE9, CHR 0xEA, CHR 0xEB, CHR 0xEC, CHR 0xED, CHR 0xEE, CHR 0xEF, CHR 0xF0, CHR 0xF1,
      CHR 0xF2, CHR 0xF3, CHR 0xF4, CHR 0xF5, CHR 0xF6, CHR 0xF8, CHR 0xF9, CHR 0xFA, CHR 0xFB,
      CHR 0xFC, CHR 0xFD, CHR 0xFE]"

definition lowerCasedChar :: "char \<Rightarrow> char" where
  "lowerCasedChar c =
     (case map_of (zip upperCaseLetters lowerCaseLetters) c of None \<Rightarrow> c | Some d \<Rightarrow> d)"

definition lowerCased :: "string \<Rightarrow> string" where
  "lowerCased s = map lowerCasedChar s"

subsection \<open>The removal of an endpoint\<close>

text \<open>
  The document of an API maps each path to its operations and each operation to its routing
  data. As a JavaScript object does, it keeps its keys in order: it is an association list,
  read with \<open>map_of\<close>. The edit has two errors (section 4.5 of the spec).
\<close>

datatype editError = PathNotFound | OperationNotFound

type_synonym 'm endpointDocument = "(string \<times> (string \<times> 'm) list) list"

text \<open>
  Modelled from the spec: \<^verbatim>\<open>utils.removeEndpointFromSwaggerApi\<close>, of \<^verbatim>\<open>utils.js\<close>, which
  is not among the sources. The steps are those of section 4.5: the path is looked up
  (\<open>PathNotFound\<close>); with an operation, the operation is looked up under the path
  (\<open>OperationNotFound\<close>) and removed, and the path goes with it when no operation is
  left; without an operation, the path is removed. An operation is given when the field is
  neither \<^verbatim>\<open>undefined\<close> nor empty, as in \<open>validateArgs\<close>.
\<close>

definition removeEndpoint ::
  "'m endpointDocument \<Rightarrow> endpoint \<Rightarrow> editError + 'm endpointDocument" where
  "removeEndpoint doc ep =
     (let path = jsStr (gatewayPath ep); method = jsStr (gatewayMethod ep)
      in case map_of doc path of
           None \<Rightarrow> Inl PathNotFound
         | Some ops \<Rightarrow>
             if truthy (gatewayMethod ep) then
               (case map_of ops method of
                  None \<Rightarrow> Inl OperationNotFound
                | Some routing \<Rightarrow>
                    (let ops' = AList.delete method ops
                     in if ops' = [] then Inr (AList.delete path doc)
                        else Inr (AList.update path ops' doc)))
             else Inr (AList.delete path doc))"

text \<open>
  Modelled from the spec: the helpers \<open>u\<close> with \<^verbatim>\<open>utils.removeEndpointFromSwaggerApi\<close> as
  section 4.5 describes it. The spec names the two errors and not the strings returned for
  them: \<open>errMsg\<close> gives the strings.
\<close>

definition withEditor ::
  "(editError \<Rightarrow> string) \<Rightarrow> ('r, 'm endpointDocument) utils \<Rightarrow> ('r, 'm endpointDocument) utils" where
  "withEditor errMsg u =
     u\<lparr>removeEndpointFromSwaggerApi :=
         (\<lambda>doc ep. case removeEndpoint doc ep of
                      Inl e \<Rightarrow> Inl (errMsg e)
                    | Inr doc' \<Rightarrow> Inr doc')\<rparr>"

subsection \<open>A gateway to run the action on\<close>

definition exMessage :: message where
  "exMessage =
     \<lparr>gwUrl = Some ''http://gw.com'', gwUser = None, gwPwd = None, namespace = None,
      ow_meta_namespace = Some ''guest'', tenantInstance = None, basepath = Some ''/pets'',
      relpath = None, operation = None\<rparr>"

definition exGwInfo :: gwInfo where
  "exGwInfo = \<lparr>gwInfo_gwUrl = Some ''http://gw.com'', gwAuth = None\<rparr>"

definition exDocument :: "string endpointDocument" where
  "exDocument =
     [(''/a'', [(''get'', ''actionA''), (''post'', ''actionB'')]),
      (''/b'', [(''get'', ''actionC'')])]"

definition exTenant :: tenant where
  "exTenant = \<lparr>tenant_id = ''t1''\<rparr>"

definition exApi :: "string \<Rightarrow> string endpointDocument gwApi" where
  "exApi i = \<lparr>api_id = i, tenantId = ''t1'', basePath = ''/pets'', resources = exDocument\<rparr>"

fun exErrMsg :: "editError \<Rightarrow> string" where
  "exErrMsg PathNotFound = ''path not found''"
| "exErrMsg OperationNotFound = ''operation not found''"

text \<open>
  A gateway that answers with the given tenants and APIs, deletes and replaces with
  success, and whose document is the gateway's description itself.
\<close>

definition exUtils ::
  "tenant list \<Rightarrow> string endpointDocument gwApi list \<Rightarrow>
   (string endpointDocument, string endpointDocument) utils" where
  "exUtils tenants apis =
     \<lparr>getTenants = (\<lambda>gi ns ti. Inr tenants),
      getApis = (\<lambda>gi tid bp. Inr apis),
      deleteApiFromGateway = (\<lambda>gi i. Inr ()),
      generateSwaggerApiFromGwApi = resources,
      removeEndpointFromSwaggerApi =
        (\<lambda>doc ep. case removeEndpoint doc ep of
                     Inl e \<Rightarrow> Inl (exErrMsg e)
                   | Inr doc' \<Rightarrow> Inr doc'),
      addApiToGateway = (\<lambda>gi tid doc i. Inr ())\<rparr>"

subsection \<open>The chain in direct style\<close>

text \<open>How the handler of line 131 leaves the promise, after the calls \<open>cs\<close>.\<close>

definition failure :: "string \<Rightarrow> 'c list \<Rightarrow> (unit, 'c) promise" where
  "failure reason cs = (Inl (''API deletion failure: '' @ reason), cs)"

section \<open>Properties\<close>

subsection \<open>Strings and validation\<close>

lemma toLowerChar_idem: "toLowerChar (toLowerChar c) = toLowerChar c"
  by (simp add: toLowerChar_def Let_def)

lemma toLowerCase_idem: "toLowerCase (toLowerCase s) = toLowerCase s"
  by (simp add: toLowerCase_def toLowerChar_idem)

lemma toLowerCase_Nil_iff: "toLowerCase s = [] \<longleftrightarrow> s = []"
  by (simp add: toLowerCase_def)

text \<open>
  The lower-casing of the code is the lower-casing by the table of letters: all 256 code
  units are compared.
\<close>

lemma toLowerChar_lowerCased: "toLowerChar c = lowerCasedChar c"
proof (cases c)
  case (Char b0 b1 b2 b3 b4 b5 b6 b7)
  show ?thesis
    unfolding Char
    by (cases b0; cases b1; cases b2; cases b3; cases b4; cases b5; cases b6; cases b7;
        simp add: toLowerChar_def lowerCasedChar_def upperCaseLetters_def lowerCaseLetters_def
          char_of_def bit_Suc_0_iff)
qed

lemma toLowerCase_lowerCased: "toLowerCase s = lowerCased s"
  by (simp add: toLowerCase_def lowerCased_def toLowerChar_lowerCased)

lemma lowerCased_examples:
  "lowerCased ''GET'' = ''get''"
  "lowerCased ''Get'' = ''get''"
  "lowerCased ''get'' = ''get''"
  "lowerCased ''PUT'' = ''put''"
  "lowerCased [CHR 0xC9] = [CHR 0xE9]"
  by (simp_all add: lowerCased_def lowerCasedChar_def upperCaseLetters_def lowerCaseLetters_def)

lemma base64_example: "base64 ''user:pass'' = ''dXNlcjpwYXNz''"
  by (simp add: base64_def base64Digit_def base64Alphabet_def)

lemma jsOr_truthy: "truthy a \<Longrightarrow> jsOr a b = a"
  by (simp add: jsOr_def)

lemma normalized_fields:
  "gwUrl (normalized m) = gwUrl m"
  "gwUser (normalized m) = gwUser m"
  "gwPwd (normalized m) = gwPwd m"
  "namespace (normalized m) = namespace m"
  "ow_meta_namespace (normalized m) = ow_meta_namespace m"
  "tenantInstance (normalized m) = tenantInstance m"
  "basepath (normalized m) = basepath m"
  "relpath (normalized m) = relpath m"
  by (simp_all add: normalized_def)

lemma operation_normalized:
  "operation (normalized m) =
     (if truthy (operation m) then Some (toLowerCase (jsStr (operation m))) else operation m)"
  by (cases "operation m") (simp_all add: normalized_def)

lemma mkGwInfo_normalized: "mkGwInfo (normalized m) = mkGwInfo m"
  by (simp add: mkGwInfo_def normalized_fields)

lemma tenantInstanceOf_normalized: "tenantInstanceOf (normalized m) = tenantInstanceOf m"
  by (simp add: tenantInstanceOf_def normalized_fields)

lemma validateArgs_fst:
  "fst (validateArgs (Some m)) =
     (if \<not> truthy (gwUrl m) then ''gwUrl is required.''
      else if \<not> truthy (ow_meta_namespace m) then ''__ow_meta_namespace is required.''
      else if \<not> truthy (basepath m) then ''basepath is required.''
      else if \<not> truthy (relpath m) \<and> truthy (operation m) then
        ''When specifying an operation, the relpath is required.''
      else [])"
  by simp

lemma validateArgs_ok:
  "fst (validateArgs (Some m)) = [] \<longleftrightarrow>
     truthy (gwUrl m) \<and> truthy (ow_meta_namespace m) \<and> truthy (basepath m) \<and>
     (truthy (operation m) \<longrightarrow> truthy (relpath m))"
  by (simp add: validateArgs_fst del: validateArgs.simps)

lemma validateArgs_snd:
  "fst (validateArgs (Some m)) = [] \<Longrightarrow> snd (validateArgs (Some m)) = Some (normalized m)"
  by (simp add: normalized_def split: if_splits)

declare validateArgs.simps [simp del]

lemma main_invalid:
  "fst (validateArgs (Some m)) \<noteq> [] \<Longrightarrow>
   main u (Some m) = (Rejected (fst (validateArgs (Some m))), [])"
  unfolding main_def by (cases "validateArgs (Some m)") simp

lemma main_valid:
  assumes "fst (validateArgs (Some m)) = []"
  shows "main u (Some m) =
    (outcomeOf (fst (deleteApi u (normalized m))), snd (deleteApi u (normalized m)))"
proof -
  from assms validateArgs_snd [OF assms]
  have "validateArgs (Some m) = ([], Some (normalized m))"
    by (metis prod.collapse)
  then show ?thesis
    unfolding main_def by (simp split: prod.splits)
qed

subsection \<open>The promise chain\<close>

lemma thenP_Inl: "thenP (Inl reason, cs) f = (Inl reason, cs)"
  by (simp add: thenP_def)

lemma thenP_Inr: "thenP (Inr v, cs) f = (fst (f v), cs @ snd (f v))"
  by (simp add: thenP_def split: prod.splits)

lemma catchP_Inl: "catchP (Inl reason, cs) h = (fst (h reason), cs @ snd (h reason))"
  by (simp add: catchP_def split: prod.splits)

lemma catchP_Inr: "catchP (Inr v, cs) h = (Inr v, cs)"
  by (simp add: catchP_def)

lemmas promise_simps = thenP_Inl thenP_Inr catchP_Inl catchP_Inr called_def reject_def
  resolve_def onSuccess_def onFailure_def

text \<open>
  The chain of \<open>then\<close> and \<open>catch\<close> is a sequence of steps, each of which runs when all
  the steps before it have succeeded.
\<close>

lemma deleteApi_direct:
  "deleteApi u m =
    (let gi = mkGwInfo m; ns = jsOr (ow_meta_namespace m) (namespace m);
         ti = tenantInstanceOf m; c1 = GetTenants gi ns ti
     in case getTenants u gi ns ti of
          Inl reason \<Rightarrow> failure reason [c1]
        | Inr tenants \<Rightarrow>
            if tenants = [] then failure (''No Tenant found for namespace '' @ jsStr ns) [c1]
            else if length tenants > 1 then
              failure (''Internal error. Multiple API Gateway tenants found for namespace '' @
                       jsStr ns @ '' and tenant instance '' @ jsStr ti) [c1]
            else
              (let tid = tenant_id (tenants ! 0); c2 = GetApis gi tid (basepath m)
               in case getApis u gi tid (basepath m) of
                    Inl reason \<Rightarrow> failure reason [c1, c2]
                  | Inr apis \<Rightarrow>
                      if apis = [] then
                        failure (''API '' @ jsStr (basepath m) @ '' does not exist.'') [c1, c2]
                      else
                        (case onGwApi u gi (m\<lparr>namespace := ns\<rparr>) (\<not> truthy (relpath m))
                                (apis ! 0) of
                           (Inl reason, cs) \<Rightarrow> failure reason ([c1, c2] @ cs)
                         | (Inr x, cs) \<Rightarrow> (Inr (), [c1, c2] @ cs))))"
  by (simp add: deleteApi_def promise_simps onTenants_def onTenantId_def onApis_def failure_def
      tenantInstanceOf_def Let_def split: sum.splits prod.splits)

lemma deleteApi_normalized:
  assumes "truthy (ow_meta_namespace m)"
  shows "deleteApi u (normalized m) =
    (let gi = mkGwInfo m; ns = ow_meta_namespace m; ti = tenantInstanceOf m;
         c1 = GetTenants gi ns ti
     in case getTenants u gi ns ti of
          Inl reason \<Rightarrow> failure reason [c1]
        | Inr tenants \<Rightarrow>
            if tenants = [] then failure (''No Tenant found for namespace '' @ jsStr ns) [c1]
            else if length tenants > 1 then
              failure (''Internal error. Multiple API Gateway tenants found for namespace '' @
                       jsStr ns @ '' and tenant instance '' @ jsStr ti) [c1]
            else
              (let tid = tenant_id (tenants ! 0); c2 = GetApis gi tid (basepath m)
               in case getApis u gi tid (basepath m) of
                    Inl reason \<Rightarrow> failure reason [c1, c2]
                  | Inr apis \<Rightarrow>
                      if apis = [] then
                        failure (''API '' @ jsStr (basepath m) @ '' does not exist.'') [c1, c2]
                      else
                        (case onGwApi u gi ((normalized m)\<lparr>namespace := ns\<rparr>)
                                (\<not> truthy (relpath m)) (apis ! 0) of
                           (Inl reason, cs) \<Rightarrow> failure reason ([c1, c2] @ cs)
                         | (Inr x, cs) \<Rightarrow> (Inr (), [c1, c2] @ cs))))"
  using assms
  by (simp add: deleteApi_direct normalized_fields mkGwInfo_normalized
      tenantInstanceOf_normalized jsOr_truthy Let_def cong: if_cong sum.case_cong)

lemma onGwApi_whole:
  "onGwApi u gi m True api =
     (deleteApiFromGateway u gi (api_id api), [DeleteApiFromGateway gi (api_id api)])"
  by (simp add: onGwApi_def called_def)

subsection \<open>The example\<close>

lemma exMessage_valid: "fst (validateArgs (Some exMessage)) = []"
  by (simp add: validateArgs_ok exMessage_def)

lemma exMessage_gwInfo: "mkGwInfo exMessage = exGwInfo"
  by (simp add: mkGwInfo_def exMessage_def exGwInfo_def)

lemma exMessage_tenantInstance: "tenantInstanceOf exMessage = Some ''openwhisk''"
  by (simp add: tenantInstanceOf_def jsOr_def exMessage_def)

subsection \<open>Validation\<close>

text \<open>
  C3: an input without \<^verbatim>\<open>gwUrl\<close>, without a namespace (the field
  \<^verbatim>\<open>__ow_meta_namespace\<close>, which is the one validation reads) or without \<^verbatim>\<open>basepath\<close>,
  and an input with an operation and no \<^verbatim>\<open>relpath\<close>, is rejected with the message of
  the first rule it breaks, and no call is made to the gateway.
\<close>

theorem invalid_arguments_no_calls:
  "(\<not> truthy (gwUrl m) \<longrightarrow> main u (Some m) = (Rejected ''gwUrl is required.'', [])) \<and>
   (truthy (gwUrl m) \<and> \<not> truthy (ow_meta_namespace m) \<longrightarrow>
      main u (Some m) = (Rejected ''__ow_meta_namespace is required.'', [])) \<and>
   (truthy (gwUrl m) \<and> truthy (ow_meta_namespace m) \<and> \<not> truthy (basepath m) \<longrightarrow>
      main u (Some m) = (Rejected ''basepath is required.'', [])) \<and>
   (truthy (gwUrl m) \<and> truthy (ow_meta_namespace m) \<and> truthy (basepath m) \<and>
    truthy (operation m) \<and> \<not> truthy (relpath m) \<longrightarrow>
      main u (Some m) =
        (Rejected ''When specifying an operation, the relpath is required.'', []))"
proof -
  have "fst (validateArgs (Some m)) \<noteq> [] \<longrightarrow>
        main u (Some m) = (Rejected (fst (validateArgs (Some m))), [])"
    by (simp add: main_invalid)
  then show ?thesis
    by (simp add: validateArgs_fst)
qed

theorem invalid_arguments_no_calls_witness:
  "main (exUtils [exTenant] [exApi ''api1'']) (Some (exMessage\<lparr>gwUrl := None\<rparr>)) =
     (Rejected ''gwUrl is required.'', []) \<and>
   main (exUtils [exTenant] [exApi ''api1'']) (Some (exMessage\<lparr>ow_meta_namespace := None\<rparr>)) =
     (Rejected ''__ow_meta_namespace is required.'', []) \<and>
   main (exUtils [exTenant] [exApi ''api1'']) (Some (exMessage\<lparr>basepath := Some []\<rparr>)) =
     (Rejected ''basepath is required.'', []) \<and>
   main (exUtils [exTenant] [exApi ''api1'']) (Some (exMessage\<lparr>operation := Some ''GET''\<rparr>)) =
     (Rejected ''When specifying an operation, the relpath is required.'', [])"
  using
    invalid_arguments_no_calls
      [of "exMessage\<lparr>gwUrl := None\<rparr>" "exUtils [exTenant] [exApi ''api1'']"]
    invalid_arguments_no_calls
      [of "exMessage\<lparr>ow_meta_namespace := None\<rparr>" "exUtils [exTenant] [exApi ''api1'']"]
    invalid_arguments_no_calls
      [of "exMessage\<lparr>basepath := Some []\<rparr>" "exUtils [exTenant] [exApi ''api1'']"]
    invalid_arguments_no_calls
      [of "exMessage\<lparr>operation := Some ''GET''\<rparr>" "exUtils [exTenant] [exApi ''api1'']"]
  by (simp add: exMessage_def)

subsection \<open>Tenant resolution\<close>

text \<open>
  C4: on a valid input, when the gateway answers the tenant lookup: with no tenant the
  action fails with the message that no tenant was found; with more than one, with the
  internal error of several tenants; in both cases the tenant lookup is the only call, so
  the APIs are never looked up. With exactly one tenant, the next call is the API lookup
  with the id of that tenant.
\<close>

theorem tenant_resolution:
  assumes "fst (validateArgs (Some m)) = []"
    and "getTenants u (mkGwInfo m) (ow_meta_namespace m) (tenantInstanceOf m) = Inr tenants"
  shows "(tenants = [] \<longrightarrow>
            main u (Some m) =
              (Rejected (''API deletion failure: No Tenant found for namespace '' @
                         jsStr (ow_meta_namespace m)),
               [GetTenants (mkGwInfo m) (ow_meta_namespace m) (tenantInstanceOf m)])) \<and>
         (length tenants > 1 \<longrightarrow>
            main u (Some m) =
              (Rejected (''API deletion failure: Internal error. Multiple API Gateway tenants found for namespace '' @
                         jsStr (ow_meta_namespace m) @ '' and tenant instance '' @
                         jsStr (tenantInstanceOf m)),
               [GetTenants (mkGwInfo m) (ow_meta_namespace m) (tenantInstanceOf m)])) \<and>
         (\<forall>t. tenants = [t] \<longrightarrow>
            take 2 (snd (main u (Some m))) =
               [GetTenants (mkGwInfo m) (ow_meta_namespace m) (tenantInstanceOf m),
                GetApis (mkGwInfo m) (tenant_id t) (basepath m)])"
proof -
  from assms(1) have ns: "truthy (ow_meta_namespace m)"
    by (simp add: validateArgs_ok)
  note run = main_valid [OF assms(1), of u] deleteApi_normalized [OF ns, of u]
  have none: "tenants = [] \<longrightarrow> main u (Some m) =
              (Rejected (''API deletion failure: No Tenant found for namespace '' @
                         jsStr (ow_meta_namespace m)),
               [GetTenants (mkGwInfo m) (ow_meta_namespace m) (tenantInstanceOf m)])"
    using assms(2) by (simp add: run failure_def outcomeOf_def Let_def)
  have many: "length tenants > 1 \<longrightarrow>
            main u (Some m) =
              (Rejected (''API deletion failure: Internal error. Multiple API Gateway tenants found for namespace '' @
                         jsStr (ow_meta_namespace m) @ '' and tenant instance '' @
                         jsStr (tenantInstanceOf m)),
               [GetTenants (mkGwInfo m) (ow_meta_namespace m) (tenantInstanceOf m)])"
    using assms(2) by (auto simp add: run failure_def outcomeOf_def Let_def)
  have one: "\<forall>t. tenants = [t] \<longrightarrow>
            take 2 (snd (main u (Some m))) =
               [GetTenants (mkGwInfo m) (ow_meta_namespace m) (tenantInstanceOf m),
                GetApis (mkGwInfo m) (tenant_id t) (basepath m)]"
    using assms(2)
    by (auto simp add: run failure_def Let_def split: sum.splits prod.splits)
  from none many one show ?thesis by blast
qed

theorem tenant_resolution_witness:
  "main (exUtils [] [exApi ''api1'']) (Some exMessage) =
     (Rejected ''API deletion failure: No Tenant found for namespace guest'',
      [GetTenants exGwInfo (Some ''guest'') (Some ''openwhisk'')]) \<and>
   main (exUtils [exTenant, exTenant] [exApi ''api1'']) (Some exMessage) =
     (Rejected ''API deletion failure: Internal error. Multiple API Gateway tenants found for namespace guest and tenant instance openwhisk'',
      [GetTenants exGwInfo (Some ''guest'') (Some ''openwhisk'')]) \<and>
   take 2 (snd (main (exUtils [exTenant] [exApi ''api1'']) (Some exMessage))) =
     [GetTenants exGwInfo (Some ''guest'') (Some ''openwhisk''),
      GetApis exGwInfo ''t1'' (Some ''/pets'')]"
proof -
  have t0: "getTenants (exUtils [] [exApi ''api1'']) (mkGwInfo exMessage)
              (ow_meta_namespace exMessage) (tenantInstanceOf exMessage) = Inr []"
    and t2: "getTenants (exUtils [exTenant, exTenant] [exApi ''api1'']) (mkGwInfo exMessage)
              (ow_meta_namespace exMessage) (tenantInstanceOf exMessage) =
             Inr [exTenant, exTenant]"
    and t1: "getTenants (exUtils [exTenant] [exApi ''api1'']) (mkGwInfo exMessage)
              (ow_meta_namespace exMessage) (tenantInstanceOf exMessage) = Inr [exTenant]"
    by (simp_all add: exUtils_def)
  show ?thesis
    using tenant_resolution [OF exMessage_valid t0] tenant_resolution [OF exMessage_valid t2]
      tenant_resolution [OF exMessage_valid t1]
    by (simp add: exMessage_gwInfo exMessage_tenantInstance)
      (simp add: exMessage_def exTenant_def)
qed

subsection \<open>Deleting the whole API\<close>

text \<open>
  C5: on a valid input without \<^verbatim>\<open>relpath\<close>, when the gateway answers with one tenant and
  one API, the calls are the two lookups and then one call to delete the API, with the id
  of that API: the document is neither edited nor sent back. When that call succeeds, the
  action succeeds.
\<close>

theorem whole_api_delete:
  assumes "fst (validateArgs (Some m)) = []"
    and "\<not> truthy (relpath m)"
    and "getTenants u (mkGwInfo m) (ow_meta_namespace m) (tenantInstanceOf m) = Inr [t]"
    and "getApis u (mkGwInfo m) (tenant_id t) (basepath m) = Inr [api]"
  shows "snd (main u (Some m)) =
           [GetTenants (mkGwInfo m) (ow_meta_namespace m) (tenantInstanceOf m),
            GetApis (mkGwInfo m) (tenant_id t) (basepath m),
            DeleteApiFromGateway (mkGwInfo m) (api_id api)] \<and>
         (deleteApiFromGateway u (mkGwInfo m) (api_id api) = Inr () \<longrightarrow>
            fst (main u (Some m)) = Resolved)"
proof -
  from assms(1) have ns: "truthy (ow_meta_namespace m)"
    by (simp add: validateArgs_ok)
  show ?thesis
    using assms(2-4)
    by (simp add: main_valid [OF assms(1)] deleteApi_normalized [OF ns] onGwApi_def called_def
        failure_def outcomeOf_def Let_def split: sum.splits)
qed

theorem whole_api_delete_witness:
  "main (exUtils [exTenant] [exApi ''api1'']) (Some exMessage) =
     (Resolved,
      [GetTenants exGwInfo (Some ''guest'') (Some ''openwhisk''),
       GetApis exGwInfo ''t1'' (Some ''/pets''),
       DeleteApiFromGateway exGwInfo ''api1''])"
proof -
  have r: "\<not> truthy (relpath exMessage)"
    by (simp add: exMessage_def)
  have t: "getTenants (exUtils [exTenant] [exApi ''api1'']) (mkGwInfo exMessage)
              (ow_meta_namespace exMessage) (tenantInstanceOf exMessage) = Inr [exTenant]"
    by (simp add: exUtils_def)
  have a: "getApis (exUtils [exTenant] [exApi ''api1'']) (mkGwInfo exMessage)
              (tenant_id exTenant) (basepath exMessage) = Inr [exApi ''api1'']"
    by (simp add: exUtils_def)
  have d: "deleteApiFromGateway (exUtils [exTenant] [exApi ''api1'']) (mkGwInfo exMessage)
              (api_id (exApi ''api1'')) = Inr ()"
    by (simp add: exUtils_def)
  show ?thesis
    using whole_api_delete [OF exMessage_valid r t a] d
    by (simp add: exMessage_gwInfo exMessage_tenantInstance prod_eq_iff)
      (simp add: exMessage_def exTenant_def exApi_def)
qed

subsection \<open>API resolution\<close>

text \<open>
  C1: the claim is that with more than one API the action fails with the internal error of
  several APIs and calls neither the deletion nor the replacement. The code does not: the
  rejection of line 105 is not returned. With one tenant and two APIs for \<^verbatim>\<open>/pets\<close>, the
  action deletes the first API and succeeds.
\<close>

theorem ambiguous_api_not_rejected:
  "main (exUtils [exTenant] [exApi ''api1'', exApi ''api2'']) (Some exMessage) =
     (Resolved,
      [GetTenants exGwInfo (Some ''guest'') (Some ''openwhisk''),
       GetApis exGwInfo ''t1'' (Some ''/pets''),
       DeleteApiFromGateway exGwInfo ''api1''])"
proof -
  have ns: "truthy (ow_meta_namespace exMessage)"
    by (simp add: exMessage_def)
  have f: "ow_meta_namespace exMessage = Some ''guest''" "basepath exMessage = Some ''/pets''"
    "relpath exMessage = None"
    by (simp_all add: exMessage_def)
  show ?thesis
    by (simp add: main_valid [OF exMessage_valid] deleteApi_normalized [OF ns] exMessage_gwInfo
        exMessage_tenantInstance f exUtils_def exTenant_def exApi_def onGwApi_def called_def
        outcomeOf_def Let_def)
qed

subsection \<open>The namespace\<close>

text \<open>
  C2, as stated, fails: an input with \<^verbatim>\<open>gwUrl\<close>, \<^verbatim>\<open>basepath\<close> and a plain
  \<^verbatim>\<open>namespace\<close>, and without \<^verbatim>\<open>__ow_meta_namespace\<close>, is rejected.
\<close>

theorem plain_namespace_rejected:
  "truthy (gwUrl (exMessage\<lparr>ow_meta_namespace := None, namespace := Some ''guest''\<rparr>)) \<and>
   truthy (basepath (exMessage\<lparr>ow_meta_namespace := None, namespace := Some ''guest''\<rparr>)) \<and>
   truthy (namespace (exMessage\<lparr>ow_meta_namespace := None, namespace := Some ''guest''\<rparr>)) \<and>
   ow_meta_namespace (exMessage\<lparr>ow_meta_namespace := None, namespace := Some ''guest''\<rparr>) = None \<and>
   main (exUtils [exTenant] [exApi ''api1''])
     (Some (exMessage\<lparr>ow_meta_namespace := None, namespace := Some ''guest''\<rparr>)) =
     (Rejected ''__ow_meta_namespace is required.'', [])"
  by (simp add: main_def validateArgs.simps exMessage_def)

lemma validateArgs_namespace:
  "validateArgs (Some (m\<lparr>namespace := x\<rparr>)) =
     (fst (validateArgs (Some m)), map_option (\<lambda>m'. m'\<lparr>namespace := x\<rparr>) (snd (validateArgs (Some m))))"
  by (simp add: validateArgs.simps)

lemma deleteApi_namespace:
  "truthy (ow_meta_namespace m) \<Longrightarrow> deleteApi u (m\<lparr>namespace := x\<rparr>) = deleteApi u m"
  by (simp add: deleteApi_def mkGwInfo_def jsOr_truthy)

text \<open>
  C2, amended: with \<^verbatim>\<open>gwUrl\<close> present, an input without \<^verbatim>\<open>__ow_meta_namespace\<close>
  (absent or empty) is rejected with the message that the field is required, and no call is
  made, whatever the plain \<^verbatim>\<open>namespace\<close> is; on a valid input the namespace of the tenant
  lookup is the value of \<^verbatim>\<open>__ow_meta_namespace\<close>; and the plain \<^verbatim>\<open>namespace\<close> never
  changes the result.
\<close>

theorem override_namespace_required:
  assumes "truthy (gwUrl m)"
  shows "(\<not> truthy (ow_meta_namespace m) \<longrightarrow>
            main u (Some m) = (Rejected ''__ow_meta_namespace is required.'', [])) \<and>
         (fst (validateArgs (Some m)) = [] \<longrightarrow>
            take 1 (snd (main u (Some m))) =
              [GetTenants (mkGwInfo m) (ow_meta_namespace m) (tenantInstanceOf m)]) \<and>
         (\<forall>x. main u (Some (m\<lparr>namespace := x\<rparr>)) = main u (Some m))"
proof -
  have absent: "\<not> truthy (ow_meta_namespace m) \<longrightarrow>
            main u (Some m) = (Rejected ''__ow_meta_namespace is required.'', [])"
  proof
    assume "\<not> truthy (ow_meta_namespace m)"
    with assms have "fst (validateArgs (Some m)) = ''__ow_meta_namespace is required.''"
      by (simp add: validateArgs_fst)
    then show "main u (Some m) = (Rejected ''__ow_meta_namespace is required.'', [])"
      using main_invalid [of m u] by simp
  qed
  have present: "fst (validateArgs (Some m)) = [] \<longrightarrow>
            take 1 (snd (main u (Some m))) =
              [GetTenants (mkGwInfo m) (ow_meta_namespace m) (tenantInstanceOf m)]"
  proof
    assume v: "fst (validateArgs (Some m)) = []"
    then have ns: "truthy (ow_meta_namespace m)"
      by (simp add: validateArgs_ok)
    show "take 1 (snd (main u (Some m))) =
              [GetTenants (mkGwInfo m) (ow_meta_namespace m) (tenantInstanceOf m)]"
      by (simp add: main_valid [OF v] deleteApi_normalized [OF ns] failure_def Let_def
          split: sum.splits prod.splits)
  qed
  have ignored: "main u (Some (m\<lparr>namespace := x\<rparr>)) = main u (Some m)" for x
  proof (cases "fst (validateArgs (Some m)) = []")
    case True
    then have ns: "truthy (ow_meta_namespace m)"
      by (simp add: validateArgs_ok)
    from True have v: "validateArgs (Some m) = ([], Some (normalized m))"
      using validateArgs_snd [OF True] by (metis prod.collapse)
    have ns': "truthy (ow_meta_namespace (normalized m))"
      using ns by (simp add: normalized_fields)
    show ?thesis
      by (simp add: main_def validateArgs_namespace v deleteApi_namespace [OF ns'])
  next
    case False
    then show ?thesis
      by (cases "validateArgs (Some m)") (simp add: main_def validateArgs_namespace)
  qed
  from absent present ignored show ?thesis by blast
qed


theorem override_namespace_required_witness:
  "main (exUtils [exTenant] [exApi ''api1''])
     (Some (exMessage\<lparr>ow_meta_namespace := Some [], namespace := Some ''guest''\<rparr>)) =
     (Rejected ''__ow_meta_namespace is required.'', []) \<and>
   take 1 (snd (main (exUtils [exTenant] [exApi ''api1''])
                  (Some (exMessage\<lparr>namespace := Some ''other''\<rparr>)))) =
     [GetTenants exGwInfo (Some ''guest'') (Some ''openwhisk'')] \<and>
   main (exUtils [exTenant] [exApi ''api1'']) (Some (exMessage\<lparr>namespace := Some ''other''\<rparr>)) =
     main (exUtils [exTenant] [exApi ''api1'']) (Some exMessage)"
proof -
  have g1: "truthy (gwUrl (exMessage\<lparr>ow_meta_namespace := Some [], namespace := Some ''guest''\<rparr>))"
    and g2: "truthy (gwUrl (exMessage\<lparr>namespace := Some ''other''\<rparr>))"
    and g3: "truthy (gwUrl exMessage)"
    by (simp_all add: exMessage_def)
  have v: "fst (validateArgs (Some (exMessage\<lparr>namespace := Some ''other''\<rparr>))) = []"
    by (simp add: validateArgs_ok exMessage_def)
  have i: "mkGwInfo (exMessage\<lparr>namespace := Some ''other''\<rparr>) = exGwInfo"
    "tenantInstanceOf (exMessage\<lparr>namespace := Some ''other''\<rparr>) = Some ''openwhisk''"
    by (simp_all add: mkGwInfo_def tenantInstanceOf_def jsOr_def exMessage_def exGwInfo_def)
  show ?thesis
    using override_namespace_required [OF g1, of "exUtils [exTenant] [exApi ''api1'']"]
      override_namespace_required [OF g2, of "exUtils [exTenant] [exApi ''api1'']"]
      override_namespace_required [OF g3, of "exUtils [exTenant] [exApi ''api1'']"] v
    by (simp add: i) (simp add: exMessage_def)
qed

subsection \<open>Errors\<close>

text \<open>
  The promise is rejected, never thrown; after validation every rejection carries the
  prefix of line 133; and a failure of the gateway, or an empty answer to the API lookup, is
  reported with its reason, the calls ending where it occurred.
\<close>

lemma main_None:
  "main u None = (Rejected ''Internal error.  A message parameter was not supplied.'', [])"
  by (simp add: main_def validateArgs.simps)

lemma main_never_throws: "fst (main u message) \<noteq> Threw e"
proof (cases message)
  case None
  then show ?thesis
    by (simp add: main_None)
next
  case (Some m)
  then show ?thesis
    by (cases "fst (validateArgs (Some m)) = []")
      (simp_all add: main_valid main_invalid outcomeOf_def split: sum.splits)
qed

lemma gateway_failures_reported:
  assumes "fst (validateArgs (Some m)) = []"
  shows "(getTenants u (mkGwInfo m) (ow_meta_namespace m) (tenantInstanceOf m) = Inl reason \<longrightarrow>
            main u (Some m) =
              (Rejected (''API deletion failure: '' @ reason),
               [GetTenants (mkGwInfo m) (ow_meta_namespace m) (tenantInstanceOf m)])) \<and>
         (\<forall>t. getTenants u (mkGwInfo m) (ow_meta_namespace m) (tenantInstanceOf m) = Inr [t] \<and>
              getApis u (mkGwInfo m) (tenant_id t) (basepath m) = Inl reason \<longrightarrow>
            main u (Some m) =
              (Rejected (''API deletion failure: '' @ reason),
               [GetTenants (mkGwInfo m) (ow_meta_namespace m) (tenantInstanceOf m),
                GetApis (mkGwInfo m) (tenant_id t) (basepath m)])) \<and>
         (\<forall>t. getTenants u (mkGwInfo m) (ow_meta_namespace m) (tenantInstanceOf m) = Inr [t] \<and>
              getApis u (mkGwInfo m) (tenant_id t) (basepath m) = Inr [] \<longrightarrow>
            main u (Some m) =
              (Rejected (''API deletion failure: API '' @ jsStr (basepath m) @ '' does not exist.''),
               [GetTenants (mkGwInfo m) (ow_meta_namespace m) (tenantInstanceOf m),
                GetApis (mkGwInfo m) (tenant_id t) (basepath m)])) \<and>
         (\<forall>t api apis. \<not> truthy (relpath m) \<and>
              getTenants u (mkGwInfo m) (ow_meta_namespace m) (tenantInstanceOf m) = Inr [t] \<and>
              getApis u (mkGwInfo m) (tenant_id t) (basepath m) = Inr (api # apis) \<and>
              deleteApiFromGateway u (mkGwInfo m) (api_id api) = Inl reason \<longrightarrow>
            fst (main u (Some m)) = Rejected (''API deletion failure: '' @ reason))"
proof -
  from assms have ns: "truthy (ow_meta_namespace m)"
    by (simp add: validateArgs_ok)
  note run = main_valid [OF assms, of u] deleteApi_normalized [OF ns, of u]
  show ?thesis
    by (auto simp add: run failure_def outcomeOf_def onGwApi_whole Let_def)
qed

lemma rejections_prefixed:
  assumes "fst (validateArgs (Some m)) = []" and "fst (main u (Some m)) = Rejected r"
  shows "\<exists>reason. r = ''API deletion failure: '' @ reason"
proof -
  from assms(1) have ns: "truthy (ow_meta_namespace m)"
    by (simp add: validateArgs_ok)
  show ?thesis
    using assms(2)
    by (auto simp add: main_valid [OF assms(1)] deleteApi_normalized [OF ns] failure_def
        outcomeOf_def Let_def split: sum.splits prod.splits if_splits)
qed


text \<open>
  C8: the claim is that every error after validation rejects the promise, with the reason
  after the prefix, and that no step runs after an error. The code does not for the error of
  several APIs (line 105, as for C1): with three APIs the action goes on to delete the
  first one and succeeds.
\<close>

theorem ambiguity_error_swallowed:
  "main (exUtils [exTenant] [exApi ''api1'', exApi ''api2'', exApi ''api3''])
     (Some (exMessage\<lparr>gwUser := Some ''user'', gwPwd := Some ''pass'',
                      tenantInstance := Some ''test''\<rparr>)) =
     (Resolved,
      [GetTenants \<lparr>gwInfo_gwUrl = Some ''http://gw.com'', gwAuth = Some ''dXNlcjpwYXNz''\<rparr>
         (Some ''guest'') (Some ''test''),
       GetApis \<lparr>gwInfo_gwUrl = Some ''http://gw.com'', gwAuth = Some ''dXNlcjpwYXNz''\<rparr>
         ''t1'' (Some ''/pets''),
       DeleteApiFromGateway
         \<lparr>gwInfo_gwUrl = Some ''http://gw.com'', gwAuth = Some ''dXNlcjpwYXNz''\<rparr> ''api1''])"
proof -
  let ?m = "exMessage\<lparr>gwUser := Some ''user'', gwPwd := Some ''pass'',
                      tenantInstance := Some ''test''\<rparr>"
  have v: "fst (validateArgs (Some ?m)) = []"
    by (simp add: validateArgs_ok exMessage_def)
  have ns: "truthy (ow_meta_namespace ?m)"
    by (simp add: exMessage_def)
  have f: "ow_meta_namespace ?m = Some ''guest''" "basepath ?m = Some ''/pets''"
    "relpath ?m = None" "tenantInstanceOf ?m = Some ''test''"
    "mkGwInfo ?m = \<lparr>gwInfo_gwUrl = Some ''http://gw.com'', gwAuth = Some ''dXNlcjpwYXNz''\<rparr>"
    by (simp_all add: exMessage_def tenantInstanceOf_def jsOr_def mkGwInfo_def base64_example)
  show ?thesis
    by (simp add: main_valid [OF v] deleteApi_normalized [OF ns] f exUtils_def exTenant_def
        exApi_def onGwApi_def called_def outcomeOf_def Let_def)
qed

subsection \<open>An empty relpath\<close>

lemma relpath_falsy_run:
  assumes "fst (validateArgs (Some m)) = []" and "\<not> truthy (relpath m)"
  shows "snd (main u (Some m)) =
    (let gi = mkGwInfo m; c1 = GetTenants gi (ow_meta_namespace m) (tenantInstanceOf m)
     in case getTenants u gi (ow_meta_namespace m) (tenantInstanceOf m) of
          Inl reason \<Rightarrow> [c1]
        | Inr tenants \<Rightarrow>
            if tenants = [] \<or> length tenants > 1 then [c1]
            else
              (let tid = tenant_id (tenants ! 0); c2 = GetApis gi tid (basepath m)
               in case getApis u gi tid (basepath m) of
                    Inl reason \<Rightarrow> [c1, c2]
                  | Inr apis \<Rightarrow>
                      if apis = [] then [c1, c2]
                      else [c1, c2, DeleteApiFromGateway gi (api_id (apis ! 0))]))"
proof -
  from assms(1) have ns: "truthy (ow_meta_namespace m)"
    by (simp add: validateArgs_ok)
  show ?thesis
    using assms(2)
    by (simp add: main_valid [OF assms(1)] deleteApi_normalized [OF ns] onGwApi_def called_def
        failure_def Let_def split: sum.splits)
qed

lemma relpath_falsy_main:
  assumes "\<not> truthy r" and "\<not> truthy r'"
  shows "main u (Some (m\<lparr>relpath := r\<rparr>)) = main u (Some (m\<lparr>relpath := r'\<rparr>))"
proof -
  let ?a = "m\<lparr>relpath := r\<rparr>" and ?b = "m\<lparr>relpath := r'\<rparr>"
  have fst_eq: "fst (validateArgs (Some ?a)) = fst (validateArgs (Some ?b))"
    using assms by (simp add: validateArgs_fst)
  have fields: "mkGwInfo ?a = mkGwInfo ?b" "ow_meta_namespace ?a = ow_meta_namespace ?b"
    "tenantInstanceOf ?a = tenantInstanceOf ?b" "basepath ?a = basepath ?b"
    by (simp_all add: mkGwInfo_def tenantInstanceOf_def)
  have falsy: "\<not> truthy (relpath ?a)" "\<not> truthy (relpath ?b)"
    using assms by simp_all
  show ?thesis
  proof (cases "fst (validateArgs (Some ?b)) = []")
    case True
    then have ns: "truthy (ow_meta_namespace ?b)"
      by (simp add: validateArgs_ok)
    from True fst_eq have v': "fst (validateArgs (Some ?a)) = []"
      by simp
    from ns fields have ns': "truthy (ow_meta_namespace ?a)"
      by simp
    show ?thesis
      using falsy
      by (simp add: main_valid [OF True] main_valid [OF v'] deleteApi_normalized [OF ns]
          deleteApi_normalized [OF ns'] fields onGwApi_whole Let_def
          cong: if_cong sum.case_cong)
  next
    case False
    with fst_eq show ?thesis
      by (simp add: main_invalid)
  qed
qed

text \<open>
  C10: with the empty string for \<^verbatim>\<open>relpath\<close> the action does what it does without
  \<^verbatim>\<open>relpath\<close>: the result is the same, no call edits or replaces the document, an input
  with an operation (and otherwise valid) is rejected because the operation requires a
  \<^verbatim>\<open>relpath\<close>, and an input without operation, once the tenant and the API are found,
  deletes the whole API.
\<close>

theorem empty_relpath_as_absent:
  "main u (Some (m\<lparr>relpath := Some []\<rparr>)) = main u (Some (m\<lparr>relpath := None\<rparr>)) \<and>
   (\<forall>c \<in> set (snd (main u (Some (m\<lparr>relpath := Some []\<rparr>)))). \<not> isEditCall c) \<and>
   (truthy (gwUrl m) \<and> truthy (ow_meta_namespace m) \<and> truthy (basepath m) \<and>
    truthy (operation m) \<longrightarrow>
      main u (Some (m\<lparr>relpath := Some []\<rparr>)) =
        (Rejected ''When specifying an operation, the relpath is required.'', [])) \<and>
   (\<forall>t api. truthy (gwUrl m) \<and> truthy (ow_meta_namespace m) \<and> truthy (basepath m) \<and>
      \<not> truthy (operation m) \<and>
      getTenants u (mkGwInfo m) (ow_meta_namespace m) (tenantInstanceOf m) = Inr [t] \<and>
      getApis u (mkGwInfo m) (tenant_id t) (basepath m) = Inr [api] \<longrightarrow>
      snd (main u (Some (m\<lparr>relpath := Some []\<rparr>))) =
        [GetTenants (mkGwInfo m) (ow_meta_namespace m) (tenantInstanceOf m),
         GetApis (mkGwInfo m) (tenant_id t) (basepath m),
         DeleteApiFromGateway (mkGwInfo m) (api_id api)])"
proof -
  let ?m = "m\<lparr>relpath := Some []\<rparr>"
  have fields: "mkGwInfo ?m = mkGwInfo m" "ow_meta_namespace ?m = ow_meta_namespace m"
    "tenantInstanceOf ?m = tenantInstanceOf m" "basepath ?m = basepath m"
    "gwUrl ?m = gwUrl m" "operation ?m = operation m" "\<not> truthy (relpath ?m)"
    by (simp_all add: mkGwInfo_def tenantInstanceOf_def)
  have same: "main u (Some ?m) = main u (Some (m\<lparr>relpath := None\<rparr>))"
    by (rule relpath_falsy_main) simp_all
  have noedit: "\<forall>c \<in> set (snd (main u (Some ?m))). \<not> isEditCall c"
  proof (cases "fst (validateArgs (Some ?m)) = []")
    case True
    show ?thesis
      by (simp add: relpath_falsy_run [OF True fields(7)] Let_def split: sum.splits)
  next
    case False
    then show ?thesis
      by (simp add: main_invalid)
  qed
  have withop: "truthy (gwUrl m) \<and> truthy (ow_meta_namespace m) \<and> truthy (basepath m) \<and>
    truthy (operation m) \<longrightarrow>
      main u (Some ?m) =
        (Rejected ''When specifying an operation, the relpath is required.'', [])"
  proof
    assume a: "truthy (gwUrl m) \<and> truthy (ow_meta_namespace m) \<and> truthy (basepath m) \<and>
      truthy (operation m)"
    then have "fst (validateArgs (Some ?m)) =
        ''When specifying an operation, the relpath is required.''"
      by (simp add: validateArgs_fst)
    then show "main u (Some ?m) =
        (Rejected ''When specifying an operation, the relpath is required.'', [])"
      using main_invalid [of ?m u] by simp
  qed
  have whole: "\<forall>t api. truthy (gwUrl m) \<and> truthy (ow_meta_namespace m) \<and> truthy (basepath m) \<and>
      \<not> truthy (operation m) \<and>
      getTenants u (mkGwInfo m) (ow_meta_namespace m) (tenantInstanceOf m) = Inr [t] \<and>
      getApis u (mkGwInfo m) (tenant_id t) (basepath m) = Inr [api] \<longrightarrow>
      snd (main u (Some ?m)) =
        [GetTenants (mkGwInfo m) (ow_meta_namespace m) (tenantInstanceOf m),
         GetApis (mkGwInfo m) (tenant_id t) (basepath m),
         DeleteApiFromGateway (mkGwInfo m) (api_id api)]"
  proof (intro allI impI)
    fix t api
    assume a: "truthy (gwUrl m) \<and> truthy (ow_meta_namespace m) \<and> truthy (basepath m) \<and>
      \<not> truthy (operation m) \<and>
      getTenants u (mkGwInfo m) (ow_meta_namespace m) (tenantInstanceOf m) = Inr [t] \<and>
      getApis u (mkGwInfo m) (tenant_id t) (basepath m) = Inr [api]"
    then have v: "fst (validateArgs (Some ?m)) = []"
      by (simp add: validateArgs_ok)
    show "snd (main u (Some ?m)) =
        [GetTenants (mkGwInfo m) (ow_meta_namespace m) (tenantInstanceOf m),
         GetApis (mkGwInfo m) (tenant_id t) (basepath m),
         DeleteApiFromGateway (mkGwInfo m) (api_id api)]"
      using a by (simp add: relpath_falsy_run [OF v fields(7)] fields(1-4) Let_def)
  qed
  from same noedit withop whole show ?thesis by blast
qed


theorem empty_relpath_as_absent_witness:
  "main (exUtils [exTenant] [exApi ''api1'']) (Some (exMessage\<lparr>relpath := Some []\<rparr>)) =
     main (exUtils [exTenant] [exApi ''api1'']) (Some (exMessage\<lparr>relpath := None\<rparr>)) \<and>
   list_all (\<lambda>c. \<not> isEditCall c)
     (snd (main (exUtils [exTenant] [exApi ''api1''])
             (Some (exMessage\<lparr>relpath := Some []\<rparr>)))) \<and>
   snd (main (exUtils [exTenant] [exApi ''api1'']) (Some (exMessage\<lparr>relpath := Some []\<rparr>))) =
     [GetTenants exGwInfo (Some ''guest'') (Some ''openwhisk''),
      GetApis exGwInfo ''t1'' (Some ''/pets''),
      DeleteApiFromGateway exGwInfo ''api1''] \<and>
   main (exUtils [exTenant] [exApi ''api1''])
     (Some (exMessage\<lparr>operation := Some ''get'', relpath := Some []\<rparr>)) =
     (Rejected ''When specifying an operation, the relpath is required.'', [])"
proof -
  let ?u = "exUtils [exTenant] [exApi ''api1'']"
  note plain = empty_relpath_as_absent [of ?u exMessage]
  note withop = empty_relpath_as_absent [of ?u "exMessage\<lparr>operation := Some ''get''\<rparr>"]
  have f: "truthy (gwUrl exMessage)" "truthy (ow_meta_namespace exMessage)"
    "truthy (basepath exMessage)" "\<not> truthy (operation exMessage)"
    by (simp_all add: exMessage_def)
  have g: "getTenants ?u (mkGwInfo exMessage) (ow_meta_namespace exMessage)
             (tenantInstanceOf exMessage) = Inr [exTenant]"
    "getApis ?u (mkGwInfo exMessage) (tenant_id exTenant) (basepath exMessage) =
       Inr [exApi ''api1'']"
    by (simp_all add: exUtils_def)
  have same: "main ?u (Some (exMessage\<lparr>relpath := Some []\<rparr>)) =
      main ?u (Some (exMessage\<lparr>relpath := None\<rparr>))"
    using plain by blast
  have noedit: "list_all (\<lambda>c. \<not> isEditCall c)
      (snd (main ?u (Some (exMessage\<lparr>relpath := Some []\<rparr>))))"
    using plain by (simp add: list_all_iff)
  from plain f g have "snd (main ?u (Some (exMessage\<lparr>relpath := Some []\<rparr>))) =
      [GetTenants (mkGwInfo exMessage) (ow_meta_namespace exMessage) (tenantInstanceOf exMessage),
       GetApis (mkGwInfo exMessage) (tenant_id exTenant) (basepath exMessage),
       DeleteApiFromGateway (mkGwInfo exMessage) (api_id (exApi ''api1''))]"
    by blast
  then have calls: "snd (main ?u (Some (exMessage\<lparr>relpath := Some []\<rparr>))) =
     [GetTenants exGwInfo (Some ''guest'') (Some ''openwhisk''),
      GetApis exGwInfo ''t1'' (Some ''/pets''),
      DeleteApiFromGateway exGwInfo ''api1'']"
    by (simp add: exMessage_gwInfo exMessage_tenantInstance)
      (simp add: exMessage_def exTenant_def exApi_def)
  have "truthy (gwUrl (exMessage\<lparr>operation := Some ''get''\<rparr>)) \<and>
      truthy (ow_meta_namespace (exMessage\<lparr>operation := Some ''get''\<rparr>)) \<and>
      truthy (basepath (exMessage\<lparr>operation := Some ''get''\<rparr>)) \<and>
      truthy (operation (exMessage\<lparr>operation := Some ''get''\<rparr>))"
    by (simp add: exMessage_def)
  with withop have rejected: "main ?u (Some (exMessage\<lparr>operation := Some ''get'', relpath := Some []\<rparr>)) =
     (Rejected ''When specifying an operation, the relpath is required.'', [])"
    by blast
  from same noedit calls rejected show ?thesis
    by blast
qed

subsection \<open>Removing an endpoint\<close>

lemma withEditor_fields:
  "getTenants (withEditor errMsg u) = getTenants u"
  "getApis (withEditor errMsg u) = getApis u"
  "deleteApiFromGateway (withEditor errMsg u) = deleteApiFromGateway u"
  "generateSwaggerApiFromGwApi (withEditor errMsg u) = generateSwaggerApiFromGwApi u"
  "addApiToGateway (withEditor errMsg u) = addApiToGateway u"
  "removeEndpointFromSwaggerApi (withEditor errMsg u) doc ep =
     (case removeEndpoint doc ep of Inl e \<Rightarrow> Inl (errMsg e) | Inr doc' \<Rightarrow> Inr doc')"
  by (simp_all add: withEditor_def)

lemma partial_run:
  assumes "fst (validateArgs (Some m)) = []"
    and "truthy (relpath m)"
    and "getTenants u (mkGwInfo m) (ow_meta_namespace m) (tenantInstanceOf m) = Inr [t]"
    and "getApis u (mkGwInfo m) (tenant_id t) (basepath m) = Inr [api]"
  shows "main u (Some m) =
    (let gi = mkGwInfo m; doc = generateSwaggerApiFromGwApi u api;
         ep = \<lparr>gatewayMethod = operation (normalized m), gatewayPath = relpath m\<rparr>;
         cs = [GetTenants gi (ow_meta_namespace m) (tenantInstanceOf m),
               GetApis gi (tenant_id t) (basepath m),
               GenerateSwaggerApiFromGwApi api, RemoveEndpointFromSwaggerApi doc ep]
     in case removeEndpointFromSwaggerApi u doc ep of
          Inl errMsg \<Rightarrow> (Rejected (''API deletion failure: '' @ errMsg), cs)
        | Inr doc' \<Rightarrow>
            (case addApiToGateway u gi (tenantId api) doc' (api_id api) of
               Inl reason \<Rightarrow> Rejected (''API deletion failure: '' @ reason)
             | Inr x \<Rightarrow> Resolved,
             cs @ [AddApiToGateway gi (tenantId api) doc' (api_id api)]))"
proof -
  from assms(1) have ns: "truthy (ow_meta_namespace m)"
    by (simp add: validateArgs_ok)
  show ?thesis
    using assms(2-4)
    by (simp add: main_valid [OF assms(1)] deleteApi_normalized [OF ns] onGwApi_def
        normalized_fields failure_def outcomeOf_def Let_def split: sum.splits)
qed


lemma removeEndpoint_path_missing:
  "map_of doc (jsStr (gatewayPath ep)) = None \<Longrightarrow> removeEndpoint doc ep = Inl PathNotFound"
  by (simp add: removeEndpoint_def)

lemma removeEndpoint_operation_missing:
  "map_of doc (jsStr (gatewayPath ep)) = Some ops \<Longrightarrow> truthy (gatewayMethod ep) \<Longrightarrow>
   map_of ops (jsStr (gatewayMethod ep)) = None \<Longrightarrow>
   removeEndpoint doc ep = Inl OperationNotFound"
  by (simp add: removeEndpoint_def)

lemma delete_Nil_iff: "AList.delete k al = [] \<longleftrightarrow> (\<forall>k'. k' \<noteq> k \<longrightarrow> map_of al k' = None)"
proof -
  have "AList.delete k al = [] \<longleftrightarrow> map_of (AList.delete k al) = Map.empty"
    by simp
  also have "\<dots> \<longleftrightarrow> (\<forall>k'. k' \<noteq> k \<longrightarrow> map_of al k' = None)"
    by (auto simp add: delete_conv' fun_eq_iff)
  finally show ?thesis .
qed

lemma removeEndpoint_operation:
  assumes "map_of doc (jsStr (gatewayPath ep)) = Some ops"
    and "truthy (gatewayMethod ep)"
    and "map_of ops (jsStr (gatewayMethod ep)) = Some routing"
  shows "\<exists>doc'. removeEndpoint doc ep = Inr doc' \<and>
           (\<forall>q. q \<noteq> jsStr (gatewayPath ep) \<longrightarrow> map_of doc' q = map_of doc q) \<and>
           ((\<forall>k. k \<noteq> jsStr (gatewayMethod ep) \<longrightarrow> map_of ops k = None) \<longrightarrow>
              map_of doc' (jsStr (gatewayPath ep)) = None) \<and>
           ((\<exists>k. k \<noteq> jsStr (gatewayMethod ep) \<and> map_of ops k \<noteq> None) \<longrightarrow>
              (\<exists>ops'. map_of doc' (jsStr (gatewayPath ep)) = Some ops' \<and>
                      map_of ops' = (map_of ops)(jsStr (gatewayMethod ep) := None)))"
proof (cases "AList.delete (jsStr (gatewayMethod ep)) ops = []")
  case True
  then have "removeEndpoint doc ep = Inr (AList.delete (jsStr (gatewayPath ep)) doc)"
    using assms by (simp add: removeEndpoint_def)
  moreover from True have "\<forall>k. k \<noteq> jsStr (gatewayMethod ep) \<longrightarrow> map_of ops k = None"
    by (simp add: delete_Nil_iff)
  ultimately show ?thesis
    by (auto simp add: delete_conv')
next
  case False
  then have "removeEndpoint doc ep =
      Inr (AList.update (jsStr (gatewayPath ep)) (AList.delete (jsStr (gatewayMethod ep)) ops) doc)"
    using assms by (simp add: removeEndpoint_def)
  moreover from False have "\<not> (\<forall>k. k \<noteq> jsStr (gatewayMethod ep) \<longrightarrow> map_of ops k = None)"
    by (simp add: delete_Nil_iff)
  ultimately show ?thesis
    by (auto simp add: update_conv' delete_conv')
qed

text \<open>
  C6: in a partial deletion (a valid input with \<^verbatim>\<open>relpath\<close>, one tenant, one API), when
  the path is not in the document, or the operation is not under the path, the action fails
  with the error of the missing path, or of the missing operation, and the calls end with
  the edit: the document is not sent to the gateway.
\<close>

theorem missing_endpoint_not_replaced:
  assumes "fst (validateArgs (Some m)) = []"
    and "truthy (relpath m)"
    and "getTenants u (mkGwInfo m) (ow_meta_namespace m) (tenantInstanceOf m) = Inr [t]"
    and "getApis u (mkGwInfo m) (tenant_id t) (basepath m) = Inr [api]"
    and "doc = generateSwaggerApiFromGwApi u api"
    and "cs = [GetTenants (mkGwInfo m) (ow_meta_namespace m) (tenantInstanceOf m),
               GetApis (mkGwInfo m) (tenant_id t) (basepath m),
               GenerateSwaggerApiFromGwApi api,
               RemoveEndpointFromSwaggerApi doc
                 \<lparr>gatewayMethod = operation (normalized m), gatewayPath = relpath m\<rparr>]"
  shows "(map_of doc (jsStr (relpath m)) = None \<longrightarrow>
            main (withEditor errMsg u) (Some m) =
              (Rejected (''API deletion failure: '' @ errMsg PathNotFound), cs)) \<and>
         (\<forall>ops. map_of doc (jsStr (relpath m)) = Some ops \<and> truthy (operation m) \<and>
                map_of ops (toLowerCase (jsStr (operation m))) = None \<longrightarrow>
            main (withEditor errMsg u) (Some m) =
              (Rejected (''API deletion failure: '' @ errMsg OperationNotFound), cs))"
proof -
  let ?ep = "\<lparr>gatewayMethod = operation (normalized m), gatewayPath = relpath m\<rparr>"
  note run = partial_run [of m "withEditor errMsg u" t api, unfolded withEditor_fields,
      OF assms(1-4), folded assms(5)]
  have path: "map_of doc (jsStr (relpath m)) = None \<longrightarrow>
            main (withEditor errMsg u) (Some m) =
              (Rejected (''API deletion failure: '' @ errMsg PathNotFound), cs)"
  proof
    assume "map_of doc (jsStr (relpath m)) = None"
    then have "removeEndpoint doc ?ep = Inl PathNotFound"
      by (simp add: removeEndpoint_path_missing)
    then show "main (withEditor errMsg u) (Some m) =
              (Rejected (''API deletion failure: '' @ errMsg PathNotFound), cs)"
      by (simp add: run assms(6) Let_def)
  qed
  have oper: "\<forall>ops. map_of doc (jsStr (relpath m)) = Some ops \<and> truthy (operation m) \<and>
                map_of ops (toLowerCase (jsStr (operation m))) = None \<longrightarrow>
            main (withEditor errMsg u) (Some m) =
              (Rejected (''API deletion failure: '' @ errMsg OperationNotFound), cs)"
  proof (intro allI impI)
    fix ops
    assume a: "map_of doc (jsStr (relpath m)) = Some ops \<and> truthy (operation m) \<and>
                map_of ops (toLowerCase (jsStr (operation m))) = None"
    then have "truthy (gatewayMethod ?ep)"
      by (cases "operation m") (simp_all add: operation_normalized toLowerCase_Nil_iff)
    with a have "removeEndpoint doc ?ep = Inl OperationNotFound"
      by (intro removeEndpoint_operation_missing [of _ _ ops]) (simp_all add: operation_normalized)
    then show "main (withEditor errMsg u) (Some m) =
              (Rejected (''API deletion failure: '' @ errMsg OperationNotFound), cs)"
      by (simp add: run assms(6) Let_def)
  qed
  from path oper show ?thesis by blast
qed


text \<open>
  C7: in a partial deletion with \<^verbatim>\<open>relpath\<close> and operation, both found in the document,
  the document sent to the gateway has every other path as before; under the path it has
  the operations as before without the one removed (the operation in lower case), and the
  path itself is absent when that operation was its only one.
\<close>

theorem operation_removed_alone:
  assumes "fst (validateArgs (Some m)) = []"
    and "relpath m = Some p" and "p \<noteq> []"
    and "operation m = Some opn" and "opn \<noteq> []"
    and "getTenants u (mkGwInfo m) (ow_meta_namespace m) (tenantInstanceOf m) = Inr [t]"
    and "getApis u (mkGwInfo m) (tenant_id t) (basepath m) = Inr [api]"
    and "doc = generateSwaggerApiFromGwApi u api"
    and "map_of doc p = Some ops"
    and "map_of ops (toLowerCase opn) = Some routing"
  shows "\<exists>doc'.
           snd (main (withEditor errMsg u) (Some m)) =
             [GetTenants (mkGwInfo m) (ow_meta_namespace m) (tenantInstanceOf m),
              GetApis (mkGwInfo m) (tenant_id t) (basepath m),
              GenerateSwaggerApiFromGwApi api,
              RemoveEndpointFromSwaggerApi doc
                \<lparr>gatewayMethod = Some (toLowerCase opn), gatewayPath = Some p\<rparr>,
              AddApiToGateway (mkGwInfo m) (tenantId api) doc' (api_id api)] \<and>
           (\<forall>q. q \<noteq> p \<longrightarrow> map_of doc' q = map_of doc q) \<and>
           ((\<forall>k. k \<noteq> toLowerCase opn \<longrightarrow> map_of ops k = None) \<longrightarrow> map_of doc' p = None) \<and>
           ((\<exists>k. k \<noteq> toLowerCase opn \<and> map_of ops k \<noteq> None) \<longrightarrow>
              (\<exists>ops'. map_of doc' p = Some ops' \<and>
                      map_of ops' = (map_of ops)(toLowerCase opn := None)))"
proof -
  let ?ep = "\<lparr>gatewayMethod = Some (toLowerCase opn), gatewayPath = Some p\<rparr>"
  from assms(2,3) have rel: "truthy (relpath m)"
    by simp
  from assms(4,5) have op: "operation (normalized m) = Some (toLowerCase opn)"
    by (simp add: operation_normalized)
  note run = partial_run [of m "withEditor errMsg u" t api, unfolded withEditor_fields,
      OF assms(1) rel assms(6,7), folded assms(8), unfolded op assms(2)]
  have "map_of doc (jsStr (gatewayPath ?ep)) = Some ops"
    and "truthy (gatewayMethod ?ep)"
    and "map_of ops (jsStr (gatewayMethod ?ep)) = Some routing"
    using assms(5,9,10) by (simp_all add: toLowerCase_Nil_iff)
  from removeEndpoint_operation [OF this]
  obtain doc' where edit: "removeEndpoint doc ?ep = Inr doc'"
    and others: "\<forall>q. q \<noteq> p \<longrightarrow> map_of doc' q = map_of doc q"
    and only: "(\<forall>k. k \<noteq> toLowerCase opn \<longrightarrow> map_of ops k = None) \<longrightarrow> map_of doc' p = None"
    and siblings: "(\<exists>k. k \<noteq> toLowerCase opn \<and> map_of ops k \<noteq> None) \<longrightarrow>
              (\<exists>ops'. map_of doc' p = Some ops' \<and>
                      map_of ops' = (map_of ops)(toLowerCase opn := None))"
    by auto
  have "snd (main (withEditor errMsg u) (Some m)) =
             [GetTenants (mkGwInfo m) (ow_meta_namespace m) (tenantInstanceOf m),
              GetApis (mkGwInfo m) (tenant_id t) (basepath m),
              GenerateSwaggerApiFromGwApi api,
              RemoveEndpointFromSwaggerApi doc ?ep,
              AddApiToGateway (mkGwInfo m) (tenantId api) doc' (api_id api)]"
    by (simp add: run edit Let_def)
  with others only siblings show ?thesis
    by blast
qed


lemma exUtils_withEditor: "withEditor exErrMsg (exUtils tenants apis) = exUtils tenants apis"
  by (simp add: withEditor_def exUtils_def)

lemma exUtils_answers:
  "getTenants (exUtils tenants apis) gi ns ti = Inr tenants"
  "getApis (exUtils tenants apis) gi tid bp = Inr apis"
  "generateSwaggerApiFromGwApi (exUtils tenants apis) (exApi i) = exDocument"
  by (simp_all add: exUtils_def exApi_def)

theorem missing_endpoint_not_replaced_witness:
  "main (exUtils [exTenant] [exApi ''api1'']) (Some (exMessage\<lparr>relpath := Some ''/c''\<rparr>)) =
     (Rejected ''API deletion failure: path not found'',
      [GetTenants exGwInfo (Some ''guest'') (Some ''openwhisk''),
       GetApis exGwInfo ''t1'' (Some ''/pets''),
       GenerateSwaggerApiFromGwApi (exApi ''api1''),
       RemoveEndpointFromSwaggerApi exDocument
         \<lparr>gatewayMethod = None, gatewayPath = Some ''/c''\<rparr>]) \<and>
   main (exUtils [exTenant] [exApi ''api1''])
     (Some (exMessage\<lparr>relpath := Some ''/b'', operation := Some ''PUT''\<rparr>)) =
     (Rejected ''API deletion failure: operation not found'',
      [GetTenants exGwInfo (Some ''guest'') (Some ''openwhisk''),
       GetApis exGwInfo ''t1'' (Some ''/pets''),
       GenerateSwaggerApiFromGwApi (exApi ''api1''),
       RemoveEndpointFromSwaggerApi exDocument
         \<lparr>gatewayMethod = Some ''put'', gatewayPath = Some ''/b''\<rparr>])"
proof -
  let ?u = "exUtils [exTenant] [exApi ''api1'']"
  let ?a = "exMessage\<lparr>relpath := Some ''/c''\<rparr>"
  let ?b = "exMessage\<lparr>relpath := Some ''/b'', operation := Some ''PUT''\<rparr>"
  have va: "fst (validateArgs (Some ?a)) = []" and vb: "fst (validateArgs (Some ?b)) = []"
    by (simp_all add: validateArgs_ok exMessage_def)
  have ra: "truthy (relpath ?a)" and rb: "truthy (relpath ?b)"
    by simp_all
  have fa: "mkGwInfo ?a = exGwInfo" "ow_meta_namespace ?a = Some ''guest''"
    "tenantInstanceOf ?a = Some ''openwhisk''" "basepath ?a = Some ''/pets''"
    "operation (normalized ?a) = None" "relpath ?a = Some ''/c''"
    by (simp_all add: mkGwInfo_def tenantInstanceOf_def jsOr_def operation_normalized
        exMessage_def exGwInfo_def)
  have lower: "toLowerCase ''PUT'' = ''put''"
    by (simp add: toLowerCase_lowerCased lowerCased_examples)
  have fb: "mkGwInfo ?b = exGwInfo" "ow_meta_namespace ?b = Some ''guest''"
    "tenantInstanceOf ?b = Some ''openwhisk''" "basepath ?b = Some ''/pets''"
    "operation (normalized ?b) = Some ''put''" "relpath ?b = Some ''/b''"
    "operation ?b = Some ''PUT''"
    by (simp_all add: mkGwInfo_def tenantInstanceOf_def jsOr_def operation_normalized
        lower exMessage_def exGwInfo_def)
  have first: "main ?u (Some ?a) =
     (Rejected ''API deletion failure: path not found'',
      [GetTenants exGwInfo (Some ''guest'') (Some ''openwhisk''),
       GetApis exGwInfo ''t1'' (Some ''/pets''),
       GenerateSwaggerApiFromGwApi (exApi ''api1''),
       RemoveEndpointFromSwaggerApi exDocument
         \<lparr>gatewayMethod = None, gatewayPath = Some ''/c''\<rparr>])"
    using missing_endpoint_not_replaced [of ?a ?u exTenant "exApi ''api1''" exDocument _ exErrMsg,
        OF va ra exUtils_answers(1) exUtils_answers(2) exUtils_answers(3) [symmetric] refl]
    by (simp add: exUtils_withEditor fa) (simp add: exDocument_def exTenant_def)
  have second: "main ?u (Some ?b) =
     (Rejected ''API deletion failure: operation not found'',
      [GetTenants exGwInfo (Some ''guest'') (Some ''openwhisk''),
       GetApis exGwInfo ''t1'' (Some ''/pets''),
       GenerateSwaggerApiFromGwApi (exApi ''api1''),
       RemoveEndpointFromSwaggerApi exDocument
         \<lparr>gatewayMethod = Some ''put'', gatewayPath = Some ''/b''\<rparr>])"
    using missing_endpoint_not_replaced [of ?b ?u exTenant "exApi ''api1''" exDocument _ exErrMsg,
        OF vb rb exUtils_answers(1) exUtils_answers(2) exUtils_answers(3) [symmetric] refl]
    by (simp add: exUtils_withEditor fb lower) (simp add: exDocument_def exTenant_def)
  from first second show ?thesis
    by (rule conjI)
qed


theorem operation_removed_alone_witness:
  "(\<exists>doc'. snd (main (exUtils [exTenant] [exApi ''api1''])
                  (Some (exMessage\<lparr>relpath := Some ''/a'', operation := Some ''GET''\<rparr>))) =
            [GetTenants exGwInfo (Some ''guest'') (Some ''openwhisk''),
             GetApis exGwInfo ''t1'' (Some ''/pets''),
             GenerateSwaggerApiFromGwApi (exApi ''api1''),
             RemoveEndpointFromSwaggerApi exDocument
               \<lparr>gatewayMethod = Some ''get'', gatewayPath = Some ''/a''\<rparr>,
             AddApiToGateway exGwInfo ''t1'' doc' ''api1''] \<and>
          map_of doc' ''/b'' = Some [(''get'', ''actionC'')] \<and>
          (\<exists>ops'. map_of doc' ''/a'' = Some ops' \<and> map_of ops' ''get'' = None \<and>
                  map_of ops' ''post'' = Some ''actionB'')) \<and>
   (\<exists>doc'. snd (main (exUtils [exTenant] [exApi ''api1''])
                  (Some (exMessage\<lparr>relpath := Some ''/b'', operation := Some ''GET''\<rparr>))) =
            [GetTenants exGwInfo (Some ''guest'') (Some ''openwhisk''),
             GetApis exGwInfo ''t1'' (Some ''/pets''),
             GenerateSwaggerApiFromGwApi (exApi ''api1''),
             RemoveEndpointFromSwaggerApi exDocument
               \<lparr>gatewayMethod = Some ''get'', gatewayPath = Some ''/b''\<rparr>,
             AddApiToGateway exGwInfo ''t1'' doc' ''api1''] \<and>
          map_of doc' ''/b'' = None \<and>
          map_of doc' ''/a'' = Some [(''get'', ''actionA''), (''post'', ''actionB'')])"
proof -
  let ?u = "exUtils [exTenant] [exApi ''api1'']"
  let ?a = "exMessage\<lparr>relpath := Some ''/a'', operation := Some ''GET''\<rparr>"
  let ?b = "exMessage\<lparr>relpath := Some ''/b'', operation := Some ''GET''\<rparr>"
  have va: "fst (validateArgs (Some ?a)) = []" and vb: "fst (validateArgs (Some ?b)) = []"
    by (simp_all add: validateArgs_ok exMessage_def)
  have lower: "toLowerCase ''GET'' = ''get''"
    by (simp add: toLowerCase_lowerCased lowerCased_examples)
  have fa: "mkGwInfo ?a = exGwInfo" "ow_meta_namespace ?a = Some ''guest''"
    "tenantInstanceOf ?a = Some ''openwhisk''" "basepath ?a = Some ''/pets''"
    and fb: "mkGwInfo ?b = exGwInfo" "ow_meta_namespace ?b = Some ''guest''"
    "tenantInstanceOf ?b = Some ''openwhisk''" "basepath ?b = Some ''/pets''"
    by (simp_all add: mkGwInfo_def tenantInstanceOf_def jsOr_def exMessage_def exGwInfo_def)
  have ids: "tenant_id exTenant = ''t1''" "tenantId (exApi ''api1'') = ''t1''"
    "api_id (exApi ''api1'') = ''api1''"
    by (simp_all add: exTenant_def exApi_def)
  have pa: "map_of exDocument ''/a'' = Some [(''get'', ''actionA''), (''post'', ''actionB'')]"
    and pb: "map_of exDocument ''/b'' = Some [(''get'', ''actionC'')]"
    by (simp_all add: exDocument_def)
  have oa: "map_of [(''get'', ''actionA''), (''post'', ''actionB'')] (toLowerCase ''GET'') =
      Some ''actionA''"
    and ob: "map_of [(''get'', ''actionC'')] (toLowerCase ''GET'') = Some ''actionC''"
    by (simp_all add: lower)
  have first: "\<exists>doc'. snd (main ?u (Some ?a)) =
            [GetTenants exGwInfo (Some ''guest'') (Some ''openwhisk''),
             GetApis exGwInfo ''t1'' (Some ''/pets''),
             GenerateSwaggerApiFromGwApi (exApi ''api1''),
             RemoveEndpointFromSwaggerApi exDocument
               \<lparr>gatewayMethod = Some ''get'', gatewayPath = Some ''/a''\<rparr>,
             AddApiToGateway exGwInfo ''t1'' doc' ''api1''] \<and>
          map_of doc' ''/b'' = Some [(''get'', ''actionC'')] \<and>
          (\<exists>ops'. map_of doc' ''/a'' = Some ops' \<and> map_of ops' ''get'' = None \<and>
                  map_of ops' ''post'' = Some ''actionB'')"
  proof -
    from operation_removed_alone [of ?a "''/a''" "''GET''" ?u exTenant "exApi ''api1''"
        exDocument _ _ exErrMsg, OF va _ _ _ _ exUtils_answers(1) exUtils_answers(2)
        exUtils_answers(3) [symmetric] pa oa]
    obtain doc' where
      calls: "snd (main ?u (Some ?a)) =
            [GetTenants exGwInfo (Some ''guest'') (Some ''openwhisk''),
             GetApis exGwInfo ''t1'' (Some ''/pets''),
             GenerateSwaggerApiFromGwApi (exApi ''api1''),
             RemoveEndpointFromSwaggerApi exDocument
               \<lparr>gatewayMethod = Some ''get'', gatewayPath = Some ''/a''\<rparr>,
             AddApiToGateway exGwInfo ''t1'' doc' ''api1'']"
      and others: "\<forall>q. q \<noteq> ''/a'' \<longrightarrow> map_of doc' q = map_of exDocument q"
      and siblings: "(\<exists>k. k \<noteq> ''get'' \<and>
            map_of [(''get'', ''actionA''), (''post'', ''actionB'')] k \<noteq> None) \<longrightarrow>
          (\<exists>ops'. map_of doc' ''/a'' = Some ops' \<and>
             map_of ops' = (map_of [(''get'', ''actionA''), (''post'', ''actionB'')])(''get'' := None))"
      by (auto simp add: exUtils_withEditor fa ids lower)
    have "\<exists>k. k \<noteq> ''get'' \<and> map_of [(''get'', ''actionA''), (''post'', ''actionB'')] k \<noteq> None"
      by (rule exI [of _ "''post''"]) simp
    with siblings obtain ops' where "map_of doc' ''/a'' = Some ops'"
      and "map_of ops' = (map_of [(''get'', ''actionA''), (''post'', ''actionB'')])(''get'' := None)"
      by blast
    then have "map_of doc' ''/a'' = Some ops' \<and> map_of ops' ''get'' = None \<and>
        map_of ops' ''post'' = Some ''actionB''"
      by simp
    moreover from others pb have "map_of doc' ''/b'' = Some [(''get'', ''actionC'')]"
      by simp
    ultimately show ?thesis
      using calls by blast
  qed
  have second: "\<exists>doc'. snd (main ?u (Some ?b)) =
            [GetTenants exGwInfo (Some ''guest'') (Some ''openwhisk''),
             GetApis exGwInfo ''t1'' (Some ''/pets''),
             GenerateSwaggerApiFromGwApi (exApi ''api1''),
             RemoveEndpointFromSwaggerApi exDocument
               \<lparr>gatewayMethod = Some ''get'', gatewayPath = Some ''/b''\<rparr>,
             AddApiToGateway exGwInfo ''t1'' doc' ''api1''] \<and>
          map_of doc' ''/b'' = None \<and>
          map_of doc' ''/a'' = Some [(''get'', ''actionA''), (''post'', ''actionB'')]"
  proof -
    from operation_removed_alone [of ?b "''/b''" "''GET''" ?u exTenant "exApi ''api1''"
        exDocument _ _ exErrMsg, OF vb _ _ _ _ exUtils_answers(1) exUtils_answers(2)
        exUtils_answers(3) [symmetric] pb ob]
    obtain doc' where
      calls: "snd (main ?u (Some ?b)) =
            [GetTenants exGwInfo (Some ''guest'') (Some ''openwhisk''),
             GetApis exGwInfo ''t1'' (Some ''/pets''),
             GenerateSwaggerApiFromGwApi (exApi ''api1''),
             RemoveEndpointFromSwaggerApi exDocument
               \<lparr>gatewayMethod = Some ''get'', gatewayPath = Some ''/b''\<rparr>,
             AddApiToGateway exGwInfo ''t1'' doc' ''api1'']"
      and others: "\<forall>q. q \<noteq> ''/b'' \<longrightarrow> map_of doc' q = map_of exDocument q"
      and only: "(\<forall>k. k \<noteq> ''get'' \<longrightarrow> map_of [(''get'', ''actionC'')] k = None) \<longrightarrow>
          map_of doc' ''/b'' = None"
      by (auto simp add: exUtils_withEditor fb ids lower)
    from only have "map_of doc' ''/b'' = None"
      by simp
    moreover from others pa
    have "map_of doc' ''/a'' = Some [(''get'', ''actionA''), (''post'', ''actionB'')]"
      by simp
    ultimately show ?thesis
      using calls by blast
  qed
  from first second show ?thesis
    by (rule conjI)
qed

subsection \<open>The case of the operation\<close>

lemma normalized_idem: "normalized (normalized m) = normalized m"
  by (cases "operation m") (simp_all add: normalized_def toLowerCase_Nil_iff toLowerCase_idem)

lemma validateArgs_fst_normalized:
  "fst (validateArgs (Some (normalized m))) = fst (validateArgs (Some m))"
  by (cases "operation m")
    (simp_all add: validateArgs_fst normalized_fields operation_normalized toLowerCase_Nil_iff)

lemma main_normalized: "main u (Some (normalized m)) = main u (Some m)"
proof (cases "fst (validateArgs (Some m)) = []")
  case True
  then show ?thesis
    by (simp add: main_valid validateArgs_fst_normalized normalized_idem)
next
  case False
  then show ?thesis
    by (simp add: main_invalid validateArgs_fst_normalized)
qed

lemma main_operation_lowerCased:
  assumes "lowerCased t = lowerCased s"
  shows "main u (Some (m\<lparr>operation := Some t\<rparr>)) = main u (Some (m\<lparr>operation := Some s\<rparr>))"
proof -
  from assms have eq: "toLowerCase t = toLowerCase s"
    by (simp add: toLowerCase_lowerCased)
  have "normalized (m\<lparr>operation := Some t\<rparr>) = normalized (m\<lparr>operation := Some s\<rparr>)"
  proof (cases "s = []")
    case True
    with eq have "t = []"
      by (simp add: toLowerCase_def)
    with True show ?thesis
      by simp
  next
    case False
    with eq have "t \<noteq> []"
      by (auto simp add: toLowerCase_def)
    with False show ?thesis
      by (simp add: normalized_def eq)
  qed
  then have "main u (Some (normalized (m\<lparr>operation := Some t\<rparr>))) =
             main u (Some (normalized (m\<lparr>operation := Some s\<rparr>)))"
    by simp
  then show ?thesis
    by (simp only: main_normalized)
qed

text \<open>
  C9: the action gives the same result, outcome and calls (so the same document sent to the
  gateway, or the same error), for an operation and for its lower-cased form, the form
  being that of the table of letters; so it gives the same result for two operations that
  have the same lower-cased form, as \<^verbatim>\<open>GET\<close>, \<^verbatim>\<open>Get\<close> and \<^verbatim>\<open>get\<close>.
\<close>

theorem operation_case_invariant:
  "main u (Some (m\<lparr>operation := Some s\<rparr>)) =
     main u (Some (m\<lparr>operation := Some (lowerCased s)\<rparr>)) \<and>
   (\<forall>t. lowerCased t = lowerCased s \<longrightarrow>
      main u (Some (m\<lparr>operation := Some t\<rparr>)) = main u (Some (m\<lparr>operation := Some s\<rparr>)))"
proof -
  have idem: "lowerCased (lowerCased s) = lowerCased s"
    using toLowerCase_idem [of s] by (simp add: toLowerCase_lowerCased)
  have "main u (Some (m\<lparr>operation := Some (lowerCased s)\<rparr>)) =
        main u (Some (m\<lparr>operation := Some s\<rparr>))"
    using idem by (rule main_operation_lowerCased)
  then have form: "main u (Some (m\<lparr>operation := Some s\<rparr>)) =
        main u (Some (m\<lparr>operation := Some (lowerCased s)\<rparr>))"
    by (rule sym)
  have same: "\<forall>t. lowerCased t = lowerCased s \<longrightarrow>
      main u (Some (m\<lparr>operation := Some t\<rparr>)) = main u (Some (m\<lparr>operation := Some s\<rparr>))"
    using main_operation_lowerCased by blast
  from form same show ?thesis
    by (rule conjI)
qed

theorem operation_case_invariant_witness:
  "main (exUtils [exTenant] [exApi ''api1''])
     (Some (exMessage\<lparr>relpath := Some ''/a'', operation := Some ''GET''\<rparr>)) =
     (Resolved,
      [GetTenants exGwInfo (Some ''guest'') (Some ''openwhisk''),
       GetApis exGwInfo ''t1'' (Some ''/pets''),
       GenerateSwaggerApiFromGwApi (exApi ''api1''),
       RemoveEndpointFromSwaggerApi exDocument
         \<lparr>gatewayMethod = Some ''get'', gatewayPath = Some ''/a''\<rparr>,
       AddApiToGateway exGwInfo ''t1''
         [(''/a'', [(''post'', ''actionB'')]), (''/b'', [(''get'', ''actionC'')])] ''api1'']) \<and>
   main (exUtils [exTenant] [exApi ''api1''])
     (Some (exMessage\<lparr>relpath := Some ''/a'', operation := Some ''Get''\<rparr>)) =
     main (exUtils [exTenant] [exApi ''api1''])
       (Some (exMessage\<lparr>relpath := Some ''/a'', operation := Some ''GET''\<rparr>)) \<and>
   main (exUtils [exTenant] [exApi ''api1''])
     (Some (exMessage\<lparr>relpath := Some ''/a'', operation := Some [CHR 0xC9]\<rparr>)) =
     main (exUtils [exTenant] [exApi ''api1''])
       (Some (exMessage\<lparr>relpath := Some ''/a'', operation := Some [CHR 0xE9]\<rparr>))"
proof -
  let ?u = "exUtils [exTenant] [exApi ''api1'']"
  let ?m = "exMessage\<lparr>relpath := Some ''/a''\<rparr>"
  let ?g = "exMessage\<lparr>relpath := Some ''/a'', operation := Some ''get''\<rparr>"
  have v: "fst (validateArgs (Some ?g)) = []"
    by (simp add: validateArgs_ok exMessage_def)
  have r: "truthy (relpath ?g)"
    by simp
  have f: "mkGwInfo ?g = exGwInfo" "ow_meta_namespace ?g = Some ''guest''"
    "tenantInstanceOf ?g = Some ''openwhisk''" "basepath ?g = Some ''/pets''"
    "operation (normalized ?g) = Some ''get''" "relpath ?g = Some ''/a''"
    by (simp_all add: mkGwInfo_def tenantInstanceOf_def jsOr_def operation_normalized
        toLowerCase_lowerCased lowerCased_examples exMessage_def exGwInfo_def)
  have ids: "tenant_id exTenant = ''t1''" "tenantId (exApi ''api1'') = ''t1''"
    "api_id (exApi ''api1'') = ''api1''"
    by (simp_all add: exTenant_def exApi_def)
  have edit: "removeEndpointFromSwaggerApi ?u exDocument
        \<lparr>gatewayMethod = Some ''get'', gatewayPath = Some ''/a''\<rparr> =
      Inr [(''/a'', [(''post'', ''actionB'')]), (''/b'', [(''get'', ''actionC'')])]"
    by (simp add: exUtils_def removeEndpoint_def exDocument_def)
  have sent: "addApiToGateway ?u gi tid doc i = Inr ()" for gi tid doc i
    by (simp add: exUtils_def)
  have lower: "main ?u (Some ?g) =
     (Resolved,
      [GetTenants exGwInfo (Some ''guest'') (Some ''openwhisk''),
       GetApis exGwInfo ''t1'' (Some ''/pets''),
       GenerateSwaggerApiFromGwApi (exApi ''api1''),
       RemoveEndpointFromSwaggerApi exDocument
         \<lparr>gatewayMethod = Some ''get'', gatewayPath = Some ''/a''\<rparr>,
       AddApiToGateway exGwInfo ''t1''
         [(''/a'', [(''post'', ''actionB'')]), (''/b'', [(''get'', ''actionC'')])] ''api1''])"
    by (simp add: partial_run [OF v r exUtils_answers(1) exUtils_answers(2)] f ids
        exUtils_answers(3) edit sent Let_def)
  have upper: "main ?u (Some (?m\<lparr>operation := Some ''GET''\<rparr>)) = main ?u (Some ?g)"
    using operation_case_invariant [where u = ?u and m = ?m and s = "''GET''", THEN conjunct1]
    by (simp only: lowerCased_examples)
  have "lowerCased ''Get'' = lowerCased ''GET''"
    by (simp only: lowerCased_examples)
  with operation_case_invariant [where u = ?u and m = ?m and s = "''GET''", THEN conjunct2]
  have mixed: "main ?u (Some (?m\<lparr>operation := Some ''Get''\<rparr>)) =
      main ?u (Some (?m\<lparr>operation := Some ''GET''\<rparr>))"
    by blast
  have latin: "main ?u (Some (?m\<lparr>operation := Some [CHR 0xC9]\<rparr>)) =
      main ?u (Some (?m\<lparr>operation := Some [CHR 0xE9]\<rparr>))"
    using operation_case_invariant [where u = ?u and m = ?m and s = "[CHR 0xC9]", THEN conjunct1]
    by (simp only: lowerCased_examples)
  from upper lower have first: "main ?u (Some (?m\<lparr>operation := Some ''GET''\<rparr>)) =
     (Resolved,
      [GetTenants exGwInfo (Some ''guest'') (Some ''openwhisk''),
       GetApis exGwInfo ''t1'' (Some ''/pets''),
       GenerateSwaggerApiFromGwApi (exApi ''api1''),
       RemoveEndpointFromSwaggerApi exDocument
         \<lparr>gatewayMethod = Some ''get'', gatewayPath = Some ''/a''\<rparr>,
       AddApiToGateway exGwInfo ''t1''
         [(''/a'', [(''post'', ''actionB'')]), (''/b'', [(''get'', ''actionC'')])] ''api1''])"
    by (rule trans)
  from first mixed latin show ?thesis
    by blast
qed

end
